theory Spec2Isabelle
  imports Complex_Main
begin

chapter \<open>The components\<close>

section \<open>JavaScript values shared by the components\<close>

text \<open>
  DOM attributes and input values are strings. A JavaScript number is a \<^typ>\<open>real\<close>
  (an \<^typ>\<open>int\<close> where the code makes it one), wrapped in an option where the code can
  meet \<open>NaN\<close>, which is \<open>None\<close>: every comparison with \<open>NaN\<close> is false. Rounding is
  not modelled. The page list and the quantity selector never divide, so their numbers
  have no infinities; the numbers of the zoom wrapper, which does, have a type of
  their own further down.
\<close>

type_synonym jsnum = "real option"

definition js_lt :: "'a::linorder option \<Rightarrow> 'a option \<Rightarrow> bool" where
  "js_lt a b = (case (a, b) of (Some x, Some y) \<Rightarrow> x < y | _ \<Rightarrow> False)"

definition js_gt :: "'a::linorder option \<Rightarrow> 'a option \<Rightarrow> bool" where
  "js_gt a b = (case (a, b) of (Some x, Some y) \<Rightarrow> x > y | _ \<Rightarrow> False)"

text \<open>\<open>String(b)\<close> for a boolean, and a template literal around a possibly undefined
  string.\<close>

definition String_of_bool :: "bool \<Rightarrow> string" where
  "String_of_bool b = (if b then ''true'' else ''false'')"

definition template_of :: "string option \<Rightarrow> string" where
  "template_of v = (case v of None \<Rightarrow> ''undefined'' | Some s \<Rightarrow> s)"

section \<open>disclosure-custom.js\<close>

text \<open>
  The two refs of a \<open>DisclosureCustom\<close>: the attributes of the trigger (its \<open>dataset\<close>
  is the \<open>data-\<close> attributes) and the \<open>inert\<close> flag of the content.
\<close>

record disclosure =
  trigger_attrs :: "string \<rightharpoonup> string"
  content_inert :: bool

definition toggleDisclosure :: "disclosure \<Rightarrow> disclosure" where
  "toggleDisclosure d =
     (let expanded = (trigger_attrs d ''aria-expanded'' = Some ''true'');
          label = template_of (if expanded then trigger_attrs d ''data-disclosure-open''
                               else trigger_attrs d ''data-disclosure-close'')
      in d\<lparr>trigger_attrs := (trigger_attrs d)(''aria-expanded'' \<mapsto> String_of_bool (\<not> expanded),
                                                ''aria-label'' \<mapsto> label),
            content_inert := expanded\<rparr>)"

definition disclosure_expanded_inert :: disclosure where
  "disclosure_expanded_inert =
     \<lparr>trigger_attrs = [''aria-expanded'' \<mapsto> ''true''], content_inert = True\<rparr>"

section \<open>Number conversions\<close>

text \<open>
  \<open>Number(s)\<close> and \<open>parseInt(s)\<close> on attribute strings. \<open>parseInt\<close> skips leading white
  space, takes a sign and reads the longest prefix of decimal digits, or of hexadecimal
  digits after \<open>0x\<close>; without a digit it is \<open>NaN\<close>. \<open>Number\<close> trims white space, reads
  the empty string as 0, and otherwise wants the whole string to be a numeral: a signed
  decimal numeral with an optional fraction and exponent, or an unsigned one with a
  radix prefix. The model has no infinities, so \<open>Infinity\<close> is read as \<open>NaN\<close>; white
  space is the ASCII white space.
\<close>

definition is_ws :: "char \<Rightarrow> bool" where
  "is_ws c = (c \<in> set [CHR '' '', CHR 0x09, CHR 0x0A, CHR 0x0B, CHR 0x0C, CHR 0x0D])"

definition digit_val :: "char \<Rightarrow> nat option" where
  "digit_val c =
     (let n = of_char c :: nat
      in if 48 \<le> n \<and> n \<le> 57 then Some (n - 48) else None)"

definition hex_val :: "char \<Rightarrow> nat option" where
  "hex_val c =
     (let n = of_char c :: nat
      in if 48 \<le> n \<and> n \<le> 57 then Some (n - 48)
         else if 65 \<le> n \<and> n \<le> 70 then Some (n - 55)
         else if 97 \<le> n \<and> n \<le> 102 then Some (n - 87)
         else None)"

text \<open>The value of the longest prefix of digits in a radix, with the number of digits read.\<close>

fun read_digits :: "(char \<Rightarrow> nat option) \<Rightarrow> nat \<Rightarrow> nat \<Rightarrow> nat \<Rightarrow> string \<Rightarrow> nat \<times> nat \<times> string" where
  "read_digits dv radix acc cnt [] = (acc, cnt, [])"
| "read_digits dv radix acc cnt (c # cs) =
     (case dv c of
        None \<Rightarrow> (acc, cnt, c # cs)
      | Some d \<Rightarrow> read_digits dv radix (acc * radix + d) (Suc cnt) cs)"

definition split_sign :: "string \<Rightarrow> bool \<times> string" where
  "split_sign s =
     (case s of
        c # cs \<Rightarrow> if c = CHR ''-'' then (True, cs) else if c = CHR ''+'' then (False, cs) else (False, s)
      | [] \<Rightarrow> (False, s))"

definition parseInt :: "string \<Rightarrow> int option" where
  "parseInt s =
     (let (neg, t) = split_sign (dropWhile is_ws s);
          hex = (take 2 t = ''0x'' \<or> take 2 t = ''0X'');
          (v, cnt, rest) = (if hex then read_digits hex_val 16 0 0 (drop 2 t)
                            else read_digits digit_val 10 0 0 t)
      in if cnt = 0 then None else Some (if neg then - int v else int v))"

text \<open>A numeral with a radix prefix: digits of that radix up to the end of the string.\<close>

definition radix_literal :: "nat \<Rightarrow> string \<Rightarrow> jsnum" where
  "radix_literal radix ds =
     (let (v, cnt, rest) =
            read_digits (\<lambda>c. case hex_val c of None \<Rightarrow> None
                                | Some d \<Rightarrow> if d < radix then Some d else None) radix 0 0 ds
      in if cnt = 0 \<or> rest \<noteq> [] then None else Some (real v))"

text \<open>The exponent part that may end a decimal numeral: the power of ten to multiply by.\<close>

definition exponent_part :: "string \<Rightarrow> real option" where
  "exponent_part r =
     (case r of
        [] \<Rightarrow> Some 1
      | c # cs \<Rightarrow>
          if c = CHR ''e'' \<or> c = CHR ''E''
          then (let (neg, ds) = split_sign cs;
                    (ev, ecnt, rest) = read_digits digit_val 10 0 0 ds
                in if ecnt = 0 \<or> rest \<noteq> [] then None
                   else Some (if neg then 1 / 10 ^ ev else 10 ^ ev))
          else None)"

definition decimal_literal :: "string \<Rightarrow> jsnum" where
  "decimal_literal t =
     (let (neg, u) = split_sign t;
          (ip, icnt, r1) = read_digits digit_val 10 0 0 u;
          (fp, fcnt, r2) = (case r1 of
                              c # cs \<Rightarrow> if c = CHR ''.'' then read_digits digit_val 10 0 0 cs
                                        else (0, 0, r1)
                            | [] \<Rightarrow> (0, 0, r1));
          v = real ip + real fp / 10 ^ fcnt
      in if icnt + fcnt = 0 then None
         else case exponent_part r2 of
                None \<Rightarrow> None
              | Some p \<Rightarrow> Some (if neg then - (v * p) else v * p))"

definition js_Number :: "string \<Rightarrow> jsnum" where
  "js_Number s =
     (let t = rev (dropWhile is_ws (rev (dropWhile is_ws s)))
      in if t = [] then Some 0
         else if take 2 t = ''0x'' \<or> take 2 t = ''0X'' then radix_literal 16 (drop 2 t)
         else if take 2 t = ''0o'' \<or> take 2 t = ''0O'' then radix_literal 8 (drop 2 t)
         else if take 2 t = ''0b'' \<or> take 2 t = ''0B'' then radix_literal 2 (drop 2 t)
         else decimal_literal t)"

text \<open>\<open>Number(x)\<close> of a dataset entry: a missing entry is \<open>undefined\<close>, which is \<open>NaN\<close>.\<close>

definition js_Number_opt :: "string option \<Rightarrow> jsnum" where
  "js_Number_opt v = (case v of None \<Rightarrow> None | Some s \<Rightarrow> js_Number s)"

text \<open>Reading an array at a JavaScript index: \<open>undefined\<close> outside the array.\<close>

definition js_index :: "'a list \<Rightarrow> int \<Rightarrow> 'a option" where
  "js_index xs i = (if 0 \<le> i \<and> i < int (length xs) then Some (xs ! nat i) else None)"

section \<open>paginated-list.js\<close>

text \<open>
  The refs of a \<open>PaginatedList\<close> are read from the DOM at every call, so each operation
  takes the refs as they are at that moment: the grid with its \<open>data-last-page\<close>, the
  two view-more markers, the cards with their \<open>data-page\<close> (\<open>None\<close> when \<open>refs.cards\<close>
  is not an array) and whether a \<open>cardGallery\<close> template card exists. URLs are not
  modelled: no branch depends on them.
\<close>

record grid_ref =
  data_last_page :: "string option"

record card_ref =
  data_page :: "string option"

record pl_refs =
  grid :: "grid_ref option"
  viewMorePrevious :: bool
  viewMoreNext :: bool
  cards :: "card_ref list option"
  templateCard :: bool

datatype page_type = Previous | Next

text \<open>An \<open>IntersectionObserver\<close> is the set of markers it observes.\<close>

record scroll_observer =
  observes_previous :: bool
  observes_next :: bool

text \<open>
  Modelled from the spec: \<open>sectionRenderer.getSectionHTML\<close> is not under src. It fetches
  the HTML fragment of a section from the server endpoint and answers later; the model
  keeps every call as a pending request until the environment answers it or fails it.
  A pending request is the suspended \<open>#fetchSpecificPage\<close> with the page number it will
  store, inside the \<open>#fetchPage\<close> of the type that awaits it.
\<close>

record page_request =
  req_type :: page_type
  req_page :: jsnum

text \<open>The trace of calls to \<open>getSectionHTML\<close>: the page number asked for and the
  \<open>data-last-page\<close> that \<open>#shouldUsePage\<close> read just before the call.\<close>

datatype pl_trace = Requested jsnum "string option"

text \<open>
  The fields of the class, the \<open>section-id\<close> attribute, whether the element is connected,
  and the mutation observers that \<open>#handleFilterUpdate\<close> leaves behind (each with the
  \<open>data-last-page\<close> it captured). \<open>Component\<close> is not under src: its part of the object
  is the field \<open>base\<close>, and its two callbacks are parameters acting on that field.
\<close>

record 'b paginated_list =
  pages :: "jsnum \<rightharpoonup> string"
  infinityScrollObserver :: "scroll_observer option"
  resolveNextPagePromise :: bool
  resolvePreviousPagePromise :: bool
  aspectRatioHelper :: bool
  filter_listener :: bool
  section_id :: "string option"
  isConnected :: bool
  filter_observers :: "string option list"
  pending :: "page_request list"
  trace :: "pl_trace list"
  base :: 'b

definition lastPage_of :: "pl_refs \<Rightarrow> string option" where
  "lastPage_of refs = (case grid refs of None \<Rightarrow> None | Some g \<Rightarrow> data_last_page g)"

text \<open>\<open>!lastPage\<close> holds for \<open>undefined\<close> and for the empty string.\<close>

definition shouldUsePage :: "pl_refs \<Rightarrow> jsnum option \<Rightarrow> bool" where
  "shouldUsePage refs pageInfo =
     (case pageInfo of
        None \<Rightarrow> False
      | Some page \<Rightarrow>
          (case lastPage_of refs of
             None \<Rightarrow> False
           | Some lastPage \<Rightarrow>
               \<not> (lastPage = [] \<or> js_lt page (Some 1) \<or> js_gt page (js_Number lastPage))))"

definition getPage :: "page_type \<Rightarrow> pl_refs \<Rightarrow> jsnum option" where
  "getPage t refs =
     (case cards refs of
        None \<Rightarrow> None
      | Some cs \<Rightarrow>
          (case js_index cs (if t = Previous then 0 else int (length cs) - 1) of
             None \<Rightarrow> None
           | Some targetCard \<Rightarrow>
               (let currentCardPage = js_Number_opt (data_page targetCard)
                in Some (if t = Previous then map_option (\<lambda>x. x - 1) currentCardPage
                         else map_option (\<lambda>x. x + 1) currentCardPage))))"

definition resolvePromise :: "page_type \<Rightarrow> 'b paginated_list \<Rightarrow> 'b paginated_list" where
  "resolvePromise t s =
     (if t = Next then s\<lparr>resolveNextPagePromise := False\<rparr>
      else s\<lparr>resolvePreviousPagePromise := False\<rparr>)"

text \<open>
  \<open>#fetchSpecificPage\<close> up to its \<open>await\<close>: it returns at once, throws (the \<open>sectionId\<close>
  getter without a \<open>section-id\<close> attribute) or leaves a pending request.
\<close>

datatype fetch_progress = Returned | Threw | Awaiting

definition sectionId :: "'b paginated_list \<Rightarrow> string option" where
  "sectionId s = (case section_id s of None \<Rightarrow> None | Some i \<Rightarrow> if i = [] then None else Some i)"

definition fetchSpecificPage ::
  "page_type \<Rightarrow> jsnum \<Rightarrow> pl_refs \<Rightarrow> 'b paginated_list \<Rightarrow> fetch_progress \<times> 'b paginated_list" where
  "fetchSpecificPage t pageNumber refs s =
     (if \<not> shouldUsePage refs (Some pageNumber) then (Returned, s)
      else case sectionId s of
             None \<Rightarrow> (Threw, s)
           | Some sid \<Rightarrow>
               (Awaiting, s\<lparr>pending := pending s @ [\<lparr>req_type = t, req_page = pageNumber\<rparr>],
                             trace := trace s @ [Requested pageNumber (lastPage_of refs)]\<rparr>))"

definition fetchPage :: "page_type \<Rightarrow> pl_refs \<Rightarrow> 'b paginated_list \<Rightarrow> 'b paginated_list" where
  "fetchPage t refs s =
     (let page = getPage t refs
      in if page = None \<or> \<not> shouldUsePage refs page then resolvePromise t s
         else case page of
                None \<Rightarrow> resolvePromise t s
              | Some p \<Rightarrow>
                  (case fetchSpecificPage t p refs s of
                     (Returned, s') \<Rightarrow> resolvePromise t s'
                   | (Threw, s') \<Rightarrow> s'
                   | (Awaiting, s') \<Rightarrow> s'))"

text \<open>The answer to the \<open>k\<close>-th pending request: the rest of \<open>#fetchSpecificPage\<close>, then
  the rest of \<open>#fetchPage\<close>. A failed request rejects both and stores nothing.\<close>

definition drop_nth :: "nat \<Rightarrow> 'a list \<Rightarrow> 'a list" where
  "drop_nth k xs = take k xs @ drop (Suc k) xs"

definition pageResponse :: "nat \<Rightarrow> string \<Rightarrow> 'b paginated_list \<Rightarrow> 'b paginated_list" where
  "pageResponse k pageContent s =
     (if k < length (pending s)
      then (let r = pending s ! k
            in resolvePromise (req_type r)
                 (s\<lparr>pages := (pages s)(req_page r \<mapsto> pageContent),
                    pending := drop_nth k (pending s)\<rparr>))
      else s)"

definition pageFailure :: "nat \<Rightarrow> 'b paginated_list \<Rightarrow> 'b paginated_list" where
  "pageFailure k s = (if k < length (pending s) then s\<lparr>pending := drop_nth k (pending s)\<rparr> else s)"

definition observeViewMore :: "pl_refs \<Rightarrow> 'b paginated_list \<Rightarrow> 'b paginated_list" where
  "observeViewMore refs s =
     (if \<not> viewMorePrevious refs \<and> \<not> viewMoreNext refs then s
      else
        let ob = (case infinityScrollObserver s of
                    None \<Rightarrow> \<lparr>observes_previous = False, observes_next = False\<rparr>
                  | Some ob \<Rightarrow> ob);
            ob1 = (if viewMorePrevious refs then ob\<lparr>observes_previous := True\<rparr> else ob);
            ob2 = (if viewMoreNext refs then ob1\<lparr>observes_next := True\<rparr> else ob1)
        in s\<lparr>infinityScrollObserver := Some ob2\<rparr>)"

definition connectedCallback ::
  "('b \<Rightarrow> 'b) \<Rightarrow> pl_refs \<Rightarrow> 'b paginated_list \<Rightarrow> 'b paginated_list" where
  "connectedCallback super_connected refs s =
     (let s1 = s\<lparr>base := super_connected (base s)\<rparr>;
          s2 = (if templateCard refs then s1\<lparr>aspectRatioHelper := True\<rparr> else s1);
          s3 = fetchPage Next refs s2;
          s4 = fetchPage Previous refs s3;
          s5 = observeViewMore refs s4
      in s5\<lparr>filter_listener := True\<rparr>)"

definition disconnectedCallback ::
  "('b \<Rightarrow> 'b) \<Rightarrow> 'b paginated_list \<Rightarrow> 'b paginated_list" where
  "disconnectedCallback super_disconnected s =
     (let s1 = s\<lparr>base := super_disconnected (base s)\<rparr>;
          s2 = (case infinityScrollObserver s1 of
                  None \<Rightarrow> s1
                | Some ob \<Rightarrow> s1\<lparr>infinityScrollObserver :=
                                  Some \<lparr>observes_previous = False, observes_next = False\<rparr>\<rparr>)
      in s2\<lparr>filter_listener := False\<rparr>)"

definition handleFilterUpdate :: "pl_refs \<Rightarrow> 'b paginated_list \<Rightarrow> 'b paginated_list" where
  "handleFilterUpdate refs s =
     (let s1 = s\<lparr>pages := Map.empty\<rparr>;
          s2 = s1\<lparr>resolveNextPagePromise := False, resolvePreviousPagePromise := False\<rparr>;
          currentLastPage = lastPage_of refs
      in case grid refs of
           None \<Rightarrow> s2
         | Some g \<Rightarrow> s2\<lparr>filter_observers := filter_observers s2 @ [currentLastPage]\<rparr>)"

text \<open>
  The callback of the mutation observers of \<open>#handleFilterUpdate\<close>, run for every live
  one when the grid changes; an observer whose captured \<open>data-last-page\<close> differs from
  the new one disconnects and, if the element is connected, observes and fetches.
\<close>

fun gridMutated :: "pl_refs \<Rightarrow> string option list \<Rightarrow> 'b paginated_list \<Rightarrow> 'b paginated_list" where
  "gridMutated refs [] s = s\<lparr>filter_observers := []\<rparr>"
| "gridMutated refs (currentLastPage # obs) s =
     (if lastPage_of refs \<noteq> currentLastPage
      then gridMutated refs obs
             (if \<not> isConnected s then s else fetchPage Next refs (observeViewMore refs s))
      else (let s' = gridMutated refs obs s
            in s'\<lparr>filter_observers := currentLastPage # filter_observers s'\<rparr>))"

text \<open>
  What can happen to a \<open>PaginatedList\<close>. \<open>CallFetchPage\<close> stands for every call of
  \<open>#fetchPage\<close> outside the callbacks (the two render methods and their idle callbacks,
  which touch \<open>pages\<close> only through it); \<open>ObserverTimeout\<close> is the three-second fallback
  that disconnects one of the mutation observers.
\<close>

datatype pl_event =
    Connect pl_refs
  | Disconnect
  | FilterUpdate pl_refs
  | CallFetchPage page_type pl_refs
  | GridMutation pl_refs
  | ObserverTimeout nat
  | Response nat string
  | Failure nat

fun pl_step ::
  "('b \<Rightarrow> 'b) \<Rightarrow> ('b \<Rightarrow> 'b) \<Rightarrow> 'b paginated_list \<Rightarrow> pl_event \<Rightarrow> 'b paginated_list" where
  "pl_step sc sd s (Connect refs) = connectedCallback sc refs (s\<lparr>isConnected := True\<rparr>)"
| "pl_step sc sd s Disconnect = disconnectedCallback sd (s\<lparr>isConnected := False\<rparr>)"
| "pl_step sc sd s (FilterUpdate refs) = (if filter_listener s then handleFilterUpdate refs s else s)"
| "pl_step sc sd s (CallFetchPage t refs) = fetchPage t refs s"
| "pl_step sc sd s (GridMutation refs) = gridMutated refs (filter_observers s) s"
| "pl_step sc sd s (ObserverTimeout k) = s\<lparr>filter_observers := drop_nth k (filter_observers s)\<rparr>"
| "pl_step sc sd s (Response k pageContent) = pageResponse k pageContent s"
| "pl_step sc sd s (Failure k) = pageFailure k s"

definition pl_run ::
  "('b \<Rightarrow> 'b) \<Rightarrow> ('b \<Rightarrow> 'b) \<Rightarrow> 'b paginated_list \<Rightarrow> pl_event list \<Rightarrow> 'b paginated_list" where
  "pl_run sc sd s es = foldl (pl_step sc sd) s es"

text \<open>A freshly constructed element: the field initialisers of the class.\<close>

definition pl_new :: "string option \<Rightarrow> 'b \<Rightarrow> 'b paginated_list" where
  "pl_new sid b =
     \<lparr>pages = Map.empty, infinityScrollObserver = None, resolveNextPagePromise = False,
      resolvePreviousPagePromise = False, aspectRatioHelper = False, filter_listener = False,
      section_id = sid, isConnected = False, filter_observers = [], pending = [], trace = [],
      base = b\<rparr>"

text \<open>The range check of \<open>#shouldUsePage\<close> on a page number and a \<open>data-last-page\<close>.\<close>

definition in_page_range :: "jsnum \<Rightarrow> string option \<Rightarrow> bool" where
  "in_page_range page lastPage =
     (case lastPage of
        None \<Rightarrow> False
      | Some l \<Rightarrow> l \<noteq> [] \<and> \<not> js_lt page (Some 1) \<and> \<not> js_gt page (js_Number l))"

text \<open>A grid on page 2 of 3, and the same list after a filter left a single page.\<close>

definition refs_page2_of3 :: pl_refs where
  "refs_page2_of3 =
     \<lparr>grid = Some \<lparr>data_last_page = Some ''3''\<rparr>, viewMorePrevious = True, viewMoreNext = True,
      cards = Some [\<lparr>data_page = Some ''2''\<rparr>], templateCard = False\<rparr>"

definition refs_page1_of1 :: pl_refs where
  "refs_page1_of1 =
     \<lparr>grid = Some \<lparr>data_last_page = Some ''1''\<rparr>, viewMorePrevious = False, viewMoreNext = False,
      cards = Some [\<lparr>data_page = Some ''1''\<rparr>], templateCard = False\<rparr>"

text \<open>The invariant of the page cache: every pending request and every cached key was
  requested with a page number that passed the range check at the time of the request.\<close>

definition requested_ok :: "pl_trace list \<Rightarrow> jsnum \<Rightarrow> bool" where
  "requested_ok tr p = (\<exists>l. Requested p l \<in> set tr \<and> in_page_range p l)"

definition pl_inv :: "'b paginated_list \<Rightarrow> bool" where
  "pl_inv s = ((\<forall>r \<in> set (pending s). requested_ok (trace s) (req_page r)) \<and>
               (\<forall>k \<in> dom (pages s). requested_ok (trace s) k))"

definition pl_stale_run :: "unit paginated_list" where
  "pl_stale_run =
     pl_run id id (pl_new (Some ''template--1__main'') ())
       [Connect refs_page2_of3, FilterUpdate refs_page2_of3, GridMutation refs_page1_of1,
        Response 0 ''<ul ref=grid>'']"

definition pl_disconnected_run :: "unit paginated_list" where
  "pl_disconnected_run =
     pl_run id id (pl_new (Some ''template--1__main'') ())
       [Connect refs_page2_of3, Response 0 ''<ul ref=grid>'', Disconnect]"

section \<open>Fetches and abort controllers\<close>

text \<open>
  \<open>fetch\<close> and \<open>AbortController\<close> belong to the browser. A component's fetches are
  numbered by the controller whose signal they were given: \<open>next_controller\<close> counts the
  controllers created so far. A fetch is outstanding (\<open>inflight\<close>) from its start until
  the network settles it or its controller aborts it; an aborted fetch rejects with
  \<open>AbortError\<close>, and its handlers run later, so it waits in \<open>aborted\<close> until then.
\<close>

record network =
  inflight :: "nat list"
  aborted :: "nat list"
  next_controller :: nat

definition abort :: "nat option \<Rightarrow> network \<Rightarrow> network" where
  "abort controller n =
     (case controller of
        None \<Rightarrow> n
      | Some c \<Rightarrow>
          if c \<in> set (inflight n)
          then n\<lparr>inflight := removeAll c (inflight n), aborted := aborted n @ [c]\<rparr>
          else n)"

definition start_fetch :: "network \<Rightarrow> nat \<times> network" where
  "start_fetch n =
     (next_controller n,
      n\<lparr>inflight := inflight n @ [next_controller n], next_controller := Suc (next_controller n)\<rparr>)"

definition no_fetches :: network where
  "no_fetches = \<lparr>inflight = [], aborted = [], next_controller = 0\<rparr>"

record js_error =
  name :: string
  message :: string

definition AbortError :: js_error where
  "AbortError = \<lparr>name = ''AbortError'', message = ''The operation was aborted.''\<rparr>"

definition TypeError :: js_error where
  "TypeError = \<lparr>name = ''TypeError'', message = ''Failed to fetch''\<rparr>"

record response =
  ok :: bool
  status :: nat
  body :: string

datatype fetch_outcome = Fulfilled response | Rejected js_error

datatype console_entry = Warn string | ConsoleError js_error

section \<open>variant-picker.js\<close>

text \<open>
  The DOM under a picker is a store: \<open>inputs\<close> and \<open>selects\<close> are the elements, named by
  their position in the store, and a fieldset lists the inputs inside it. The private
  arrays \<open>#radios\<close> hold such names, so a write through them reaches the element that
  \<open>target\<close> names too. \<open>style\<close> keeps the pixel value of a custom property.
\<close>

record input_el =
  data_fieldset_index :: "string option"
  data_input_index :: "string option"
  data_current_checked :: "string option"
  data_previous_checked :: "string option"
  data_option_value_id :: "string option"
  checked :: bool
  parent_offsetWidth :: "int option"

record select_el =
  select_value :: string
  select_options :: "(string \<times> bool) list"

record fieldset_el =
  fieldset_inputs :: "nat list"
  style :: "string \<rightharpoonup> int"

record variant_picker =
  pendingRequestUrl :: "string option"
  abortController :: "nat option"
  checkedIndices :: "int list list"
  radios :: "nat list list"
  fieldsets :: "fieldset_el list"
  inputs :: "input_el list"
  selects :: "select_el list"
  console :: "console_entry list"
  net :: network

text \<open>\<open>findIndex\<close>: the first position that satisfies the predicate, or \<open>-1\<close>.\<close>

fun findIndex :: "('a \<Rightarrow> bool) \<Rightarrow> 'a list \<Rightarrow> int" where
  "findIndex P [] = -1"
| "findIndex P (x # xs) = (if P x then 0 else (let i = findIndex P xs in if i = -1 then -1 else i + 1))"

text \<open>One round of the \<open>forEach\<close> of \<open>connectedCallback\<close>, then the loop.\<close>

definition register_fieldset :: "input_el list \<Rightarrow> fieldset_el \<Rightarrow> variant_picker \<Rightarrow> variant_picker" where
  "register_fieldset els fieldset s =
     (let rs = fieldset_inputs fieldset;
          s1 = s\<lparr>radios := radios s @ [rs]\<rparr>;
          initialCheckedIndex =
            findIndex (\<lambda>radio. (case js_index els (int radio) of
                                   None \<Rightarrow> False
                                 | Some el \<Rightarrow> data_current_checked el = Some ''true'')) rs
      in if initialCheckedIndex \<noteq> -1
         then s1\<lparr>checkedIndices := checkedIndices s1 @ [[initialCheckedIndex]]\<rparr>
         else s1)"

definition vp_connectedCallback :: "variant_picker \<Rightarrow> variant_picker" where
  "vp_connectedCallback s = foldl (\<lambda>acc fieldset. register_fieldset (inputs s) fieldset acc) s (fieldsets s)"

text \<open>Writes to the element that a name denotes; a name outside the store does nothing,
  as no such element can be read from \<open>#radios\<close>. That the browser unchecks the other
  radios of a group when one is checked is not modelled.\<close>

definition update_input :: "nat \<Rightarrow> (input_el \<Rightarrow> input_el) \<Rightarrow> variant_picker \<Rightarrow> variant_picker" where
  "update_input a f s = (if a < length (inputs s) then s\<lparr>inputs := (inputs s)[a := f (inputs s ! a)]\<rparr> else s)"

definition set_fieldset_style :: "nat \<Rightarrow> string \<Rightarrow> int \<Rightarrow> variant_picker \<Rightarrow> variant_picker" where
  "set_fieldset_style i prop v s =
     (if i < length (fieldsets s)
      then s\<lparr>fieldsets := (fieldsets s)[i := (fieldsets s ! i)\<lparr>style := (style (fieldsets s ! i))(prop \<mapsto> v)\<rparr>]\<rparr>
      else s)"

text \<open>\<open>radios[index]\<close> for an index that may be \<open>undefined\<close>.\<close>

definition radio_at :: "nat list \<Rightarrow> int option \<Rightarrow> nat option" where
  "radio_at rs index = (case index of None \<Rightarrow> None | Some i \<Rightarrow> js_index rs i)"

text \<open>\<open>parentElement?.offsetWidth || 0\<close> of the element that a name denotes.\<close>

definition pill_width :: "variant_picker \<Rightarrow> nat \<Rightarrow> int" where
  "pill_width s a =
     (case js_index (inputs s) (int a) of
        None \<Rightarrow> 0
      | Some el \<Rightarrow> (case parent_offsetWidth el of None \<Rightarrow> 0 | Some w \<Rightarrow> w))"

definition clear_previous :: "nat option \<Rightarrow> variant_picker \<Rightarrow> variant_picker" where
  "clear_previous r s =
     (case r of None \<Rightarrow> s
      | Some a \<Rightarrow> update_input a (\<lambda>el. el\<lparr>data_previous_checked := Some ''false''\<rparr>) s)"

text \<open>The body of \<open>if (radios && checkedIndices && fieldset)\<close> for fieldset \<open>fi\<close>.\<close>

definition record_checked :: "nat \<Rightarrow> int \<Rightarrow> nat list \<Rightarrow> int list \<Rightarrow> variant_picker \<Rightarrow> variant_picker" where
  "record_checked fi inputIndex rs idxs s =
     (let s1 = clear_previous (radio_at rs (js_index idxs 0)) s;
          s2 = clear_previous (radio_at rs (js_index idxs 1)) s1;
          idxs' = take 2 (inputIndex # idxs);
          s3 = s2\<lparr>checkedIndices := (checkedIndices s2)[fi := idxs']\<rparr>;
          s4 = (case radio_at rs (js_index idxs' 0) of
                  None \<Rightarrow> s3
                | Some a \<Rightarrow>
                    set_fieldset_style fi ''--pill-width-current'' (pill_width s3 a)
                      (update_input a (\<lambda>el. el\<lparr>data_current_checked := Some ''true''\<rparr>) s3))
      in case radio_at rs (js_index idxs' 1) of
           None \<Rightarrow> s4
         | Some a \<Rightarrow>
             set_fieldset_style fi ''--pill-width-previous'' (pill_width s4 a)
               (update_input a (\<lambda>el. el\<lparr>data_previous_checked := Some ''true'',
                                         data_current_checked := Some ''false''\<rparr>) s4))"

datatype vp_target = TargetId string | InputEl nat | SelectEl nat | OtherEl

datatype vp_error = TargetNotFound | OptionNotFound

text \<open>\<open>dataset.x || ''\<close> and then \<open>Number.parseInt\<close>.\<close>

definition parse_index :: "string option \<Rightarrow> int option" where
  "parse_index v = parseInt (case v of None \<Rightarrow> [] | Some x \<Rightarrow> x)"

definition update_input_target :: "nat \<Rightarrow> variant_picker \<Rightarrow> variant_picker" where
  "update_input_target a s =
     (case js_index (inputs s) (int a) of
        None \<Rightarrow> s
      | Some target \<Rightarrow>
          (let s1 =
             (case (parse_index (data_fieldset_index target), parse_index (data_input_index target)) of
                (Some fieldsetIndex, Some inputIndex) \<Rightarrow>
                  (case (js_index (radios s) fieldsetIndex, js_index (checkedIndices s) fieldsetIndex,
                         js_index (fieldsets s) fieldsetIndex) of
                     (Some rs, Some idxs, Some fieldset) \<Rightarrow>
                       record_checked (nat fieldsetIndex) inputIndex rs idxs s
                   | _ \<Rightarrow> s)
              | _ \<Rightarrow> s)
           in update_input a (\<lambda>el. el\<lparr>checked := True\<rparr>) s1))"

definition update_select_target :: "nat \<Rightarrow> variant_picker \<Rightarrow> vp_error + variant_picker" where
  "update_select_target a s =
     (case js_index (selects s) (int a) of
        None \<Rightarrow> Inr s
      | Some target \<Rightarrow>
          (case find (\<lambda>(v, sel). v = select_value target) (select_options target) of
             None \<Rightarrow> Inl OptionNotFound
           | Some (newValue, sel) \<Rightarrow>
               (let k = findIndex (\<lambda>(v, sel). v = newValue) (select_options target);
                    cleared = map (\<lambda>(v, sel). (v, False)) (select_options target);
                    target' = target\<lparr>select_options := cleared[nat k := (newValue, True)]\<rparr>
                in Inr (s\<lparr>selects := (selects s)[a := target']\<rparr>))))"

text \<open>A string target is looked up by its \<open>data-option-value-id\<close>; the options of a select
  carry no such id in the model, so the lookup finds inputs only.\<close>

definition updateSelectedOption :: "vp_target \<Rightarrow> variant_picker \<Rightarrow> vp_error + variant_picker" where
  "updateSelectedOption target s =
     (case target of
        TargetId v \<Rightarrow>
          (let k = findIndex (\<lambda>el. data_option_value_id el = Some v) (inputs s)
           in if k = -1 then Inl TargetNotFound else Inr (update_input_target (nat k) s))
      | InputEl a \<Rightarrow> Inr (update_input_target a s)
      | SelectEl a \<Rightarrow> update_select_target a s
      | OtherEl \<Rightarrow> Inr s)"

text \<open>A sequence of calls; it stops at the first one that throws.\<close>

fun updateSelectedOptions :: "vp_target list \<Rightarrow> variant_picker \<Rightarrow> vp_error + variant_picker" where
  "updateSelectedOptions [] s = Inr s"
| "updateSelectedOptions (t # ts) s =
     (case updateSelectedOption t s of Inl e \<Rightarrow> Inl e | Inr s' \<Rightarrow> updateSelectedOptions ts s')"

text \<open>
  \<open>fetchUpdatedSection\<close> up to the call of \<open>fetch\<close>, and the two ends of its promise chain.
  The work of the \<open>then\<close> callback on the DOM (parsing and morphing the answer) is not
  modelled beyond the reset of \<open>#pendingRequestUrl\<close>.
\<close>

definition fetchUpdatedSection :: "string \<Rightarrow> bool \<Rightarrow> variant_picker \<Rightarrow> variant_picker" where
  "fetchUpdatedSection requestUrl shouldMorphMain s =
     (let n1 = abort (abortController s) (net s);
          (c, n2) = start_fetch n1
      in s\<lparr>abortController := Some c, net := n2\<rparr>)"

definition fetchUpdatedSection_then :: "response \<Rightarrow> variant_picker \<Rightarrow> variant_picker" where
  "fetchUpdatedSection_then r s = s\<lparr>pendingRequestUrl := None\<rparr>"

definition fetchUpdatedSection_catch :: "js_error \<Rightarrow> variant_picker \<Rightarrow> variant_picker" where
  "fetchUpdatedSection_catch error s =
     (if name error = ''AbortError''
      then s\<lparr>console := console s @ [Warn ''Fetch aborted by user'']\<rparr>
      else s\<lparr>console := console s @ [ConsoleError error]\<rparr>)"

definition fetchUpdatedSection_settle :: "fetch_outcome \<Rightarrow> variant_picker \<Rightarrow> variant_picker" where
  "fetchUpdatedSection_settle outcome s =
     (case outcome of
        Fulfilled r \<Rightarrow> fetchUpdatedSection_then r s
      | Rejected error \<Rightarrow> fetchUpdatedSection_catch error s)"

text \<open>
  What can happen to a picker: it is connected, an option is selected, a section is
  fetched (\<open>variantChanged\<close> selects and then fetches), the network settles an
  outstanding fetch, and the handlers of an aborted fetch run. An operation that throws
  has changed nothing before it throws.
\<close>

datatype vp_event =
    VConnect
  | VUpdate vp_target
  | VFetch string bool
  | VSettle nat fetch_outcome
  | VAbortHandled nat

fun vp_step :: "variant_picker \<Rightarrow> vp_event \<Rightarrow> variant_picker" where
  "vp_step s VConnect = vp_connectedCallback s"
| "vp_step s (VUpdate target) = (case updateSelectedOption target s of Inl e \<Rightarrow> s | Inr s' \<Rightarrow> s')"
| "vp_step s (VFetch url shouldMorphMain) = fetchUpdatedSection url shouldMorphMain s"
| "vp_step s (VSettle c outcome) =
     (if c \<in> set (inflight (net s))
      then fetchUpdatedSection_settle outcome (s\<lparr>net := (net s)\<lparr>inflight := removeAll c (inflight (net s))\<rparr>\<rparr>)
      else s)"
| "vp_step s (VAbortHandled c) =
     (if c \<in> set (aborted (net s))
      then fetchUpdatedSection_settle (Rejected AbortError)
             (s\<lparr>net := (net s)\<lparr>aborted := removeAll c (aborted (net s))\<rparr>\<rparr>)
      else s)"

definition vp_run :: "variant_picker \<Rightarrow> vp_event list \<Rightarrow> variant_picker" where
  "vp_run s es = foldl vp_step s es"

text \<open>A freshly constructed picker over a DOM: the field initialisers of the class.\<close>

definition vp_new :: "fieldset_el list \<Rightarrow> input_el list \<Rightarrow> select_el list \<Rightarrow> variant_picker" where
  "vp_new fs els sels =
     \<lparr>pendingRequestUrl = None, abortController = None, checkedIndices = [], radios = [],
      fieldsets = fs, inputs = els, selects = sels, console = [], net = no_fetches\<rparr>"

definition vp_fetch_inv :: "variant_picker \<Rightarrow> bool" where
  "vp_fetch_inv s =
     (set (inflight (net s)) \<subseteq> set_option (abortController s) \<and> distinct (inflight (net s)) \<and>
      set_option (abortController s) \<subseteq> {..<next_controller (net s)})"

text \<open>
  A picker with two groups of two radios each; the server marked no radio of the first
  group as current and the second radio of the second group as current.
\<close>

definition radio_el :: "string \<Rightarrow> string \<Rightarrow> bool \<Rightarrow> input_el" where
  "radio_el fi ii cur =
     \<lparr>data_fieldset_index = Some fi, data_input_index = Some ii,
      data_current_checked = Some (String_of_bool cur), data_previous_checked = None,
      data_option_value_id = None, checked = cur, parent_offsetWidth = Some 40\<rparr>"

definition two_groups :: variant_picker where
  "two_groups =
     vp_new [\<lparr>fieldset_inputs = [0, 1], style = Map.empty\<rparr>, \<lparr>fieldset_inputs = [2, 3], style = Map.empty\<rparr>]
            [radio_el ''0'' ''0'' False, radio_el ''0'' ''1'' False,
             radio_el ''1'' ''0'' False, radio_el ''1'' ''1'' True]
            []"

text \<open>Every array of checked indices holds one or two of them.\<close>

definition checked_inv :: "variant_picker \<Rightarrow> bool" where
  "checked_inv s = (\<forall>idxs \<in> set (checkedIndices s). 1 \<le> length idxs \<and> length idxs \<le> 2)"

section \<open>quick-add.js\<close>

text \<open>The two private fields of \<open>QuickAddComponent\<close> and its fetches; a cached element and
  a parsed document are the text they were made from.\<close>

record quick_add =
  qa_abortController :: "nat option"
  cachedContent :: "string \<rightharpoonup> string"
  qa_net :: network

text \<open>\<open>fetchProductPage\<close> up to its first \<open>await\<close>: it returns \<open>null\<close> at once for an empty
  URL, otherwise it leaves a fetch outstanding.\<close>

datatype 'a progress = Done 'a | Suspended

definition fetchProductPage :: "string \<Rightarrow> quick_add \<Rightarrow> string option progress \<times> quick_add" where
  "fetchProductPage productPageUrl s =
     (if productPageUrl = [] then (Done None, s)
      else
        let n1 = abort (qa_abortController s) (qa_net s);
            (c, n2) = start_fetch n1
        in (Suspended, s\<lparr>qa_abortController := Some c, qa_net := n2\<rparr>))"

text \<open>The rest of \<open>fetchProductPage\<close> once its fetch has settled: the \<open>try\<close> block, the
  \<open>catch\<close> and the \<open>finally\<close>. The result is the document, \<open>null\<close>, or a thrown error.\<close>

fun decimal :: "nat \<Rightarrow> string" where
  "decimal n = (if n < 10 then [char_of (48 + n)] else decimal (n div 10) @ [char_of (48 + n mod 10)])"

declare decimal.simps [simp del]

definition http_error :: "response \<Rightarrow> js_error" where
  "http_error r =
     \<lparr>name = ''Error'', message = ''Failed to fetch product page: HTTP error '' @ decimal (status r)\<rparr>"

definition fetchProductPage_try :: "fetch_outcome \<Rightarrow> js_error + string" where
  "fetchProductPage_try outcome =
     (case outcome of
        Rejected error \<Rightarrow> Inl error
      | Fulfilled r \<Rightarrow> if \<not> ok r then Inl (http_error r) else Inr (body r))"

definition fetchProductPage_settle ::
  "fetch_outcome \<Rightarrow> quick_add \<Rightarrow> (js_error + string option) \<times> quick_add" where
  "fetchProductPage_settle outcome s =
     (let result = (case fetchProductPage_try outcome of
                      Inr html \<Rightarrow> Inr (Some html)
                    | Inl error \<Rightarrow> if name error = ''AbortError'' then Inr None else Inl error)
      in (result, s\<lparr>qa_abortController := None\<rparr>))"

definition qa_disconnectedCallback :: "quick_add \<Rightarrow> quick_add" where
  "qa_disconnectedCallback s = s\<lparr>qa_net := abort (qa_abortController s) (qa_net s)\<rparr>"

text \<open>
  What can happen to the fetches of a \<open>QuickAddComponent\<close>: a call of
  \<open>fetchProductPage\<close>, the network settling an outstanding fetch, the rest of the method
  running for an aborted fetch, and the element being disconnected.
\<close>

datatype fetch_event =
    CallFetch string
  | Settle nat fetch_outcome
  | AbortHandled nat
  | Disconnected

fun qa_step :: "quick_add \<Rightarrow> fetch_event \<Rightarrow> quick_add" where
  "qa_step s (CallFetch url) = snd (fetchProductPage url s)"
| "qa_step s (Settle c outcome) =
     (if c \<in> set (inflight (qa_net s))
      then snd (fetchProductPage_settle outcome
                  (s\<lparr>qa_net := (qa_net s)\<lparr>inflight := removeAll c (inflight (qa_net s))\<rparr>\<rparr>))
      else s)"
| "qa_step s (AbortHandled c) =
     (if c \<in> set (aborted (qa_net s))
      then snd (fetchProductPage_settle (Rejected AbortError)
                  (s\<lparr>qa_net := (qa_net s)\<lparr>aborted := removeAll c (aborted (qa_net s))\<rparr>\<rparr>))
      else s)"
| "qa_step s Disconnected = qa_disconnectedCallback s"

definition qa_run :: "quick_add \<Rightarrow> fetch_event list \<Rightarrow> quick_add" where
  "qa_run s es = foldl qa_step s es"

definition qa_new :: quick_add where
  "qa_new = \<lparr>qa_abortController = None, cachedContent = Map.empty, qa_net = no_fetches\<rparr>"

definition qa_fetch_inv :: "quick_add \<Rightarrow> bool" where
  "qa_fetch_inv s =
     (set (inflight (qa_net s)) \<union> set_option (qa_abortController s) \<subseteq> {..<next_controller (qa_net s)})"

section \<open>component-quantity-selector.js\<close>

text \<open>
  The quantity input with the three properties the component reads (\<open>min\<close> and \<open>max\<close>
  are the empty string without the attribute) and its \<open>data-cart-line\<close>. \<open>stepUp\<close> and
  \<open>stepDown\<close> belong to the browser: they are parameters that give the new value of the
  input, or nothing when they throw. That a number input replaces an assigned value
  that is not a number by the empty string is not modelled.
\<close>

record quantity_input =
  min_attr :: string
  max_attr :: string
  input_value :: string
  data_cart_line :: "string option"

datatype event_target = NotAnElement | OtherElement | InputElement string

record update_event =
  quantity :: "int option"
  cartLine :: jsnum

datatype dom_error = InvalidStateError

definition checkQuantityRules :: "quantity_input \<Rightarrow> quantity_input" where
  "checkQuantityRules quantityInput =
     (let minInt = parseInt (min_attr quantityInput);
          maxInt = parseInt (max_attr quantityInput);
          newValueInt = parseInt (input_value quantityInput);
          q1 = (if js_lt newValueInt minInt \<and> min_attr quantityInput \<noteq> []
                then quantityInput\<lparr>input_value := min_attr quantityInput\<rparr> else quantityInput)
      in if js_gt newValueInt maxInt \<and> max_attr quantityInput \<noteq> []
         then q1\<lparr>input_value := max_attr quantityInput\<rparr> else q1)"

definition onQuantityChange :: "quantity_input \<Rightarrow> quantity_input \<times> update_event list" where
  "onQuantityChange quantityInput =
     (let q = checkQuantityRules quantityInput;
          newValue = parseInt (input_value q)
      in (q, [\<lparr>quantity = newValue, cartLine = js_Number_opt (data_cart_line q)\<rparr>]))"

definition increaseQuantity ::
  "(quantity_input \<Rightarrow> string option) \<Rightarrow> event_target \<Rightarrow> quantity_input
     \<Rightarrow> dom_error + quantity_input \<times> update_event list" where
  "increaseQuantity stepUp target q =
     (if target = NotAnElement then Inr (q, [])
      else case stepUp q of
             None \<Rightarrow> Inl InvalidStateError
           | Some v \<Rightarrow> Inr (onQuantityChange (q\<lparr>input_value := v\<rparr>)))"

definition decreaseQuantity ::
  "(quantity_input \<Rightarrow> string option) \<Rightarrow> event_target \<Rightarrow> quantity_input
     \<Rightarrow> dom_error + quantity_input \<times> update_event list" where
  "decreaseQuantity stepDown target q =
     (if target = NotAnElement then Inr (q, [])
      else case stepDown q of
             None \<Rightarrow> Inl InvalidStateError
           | Some v \<Rightarrow> Inr (onQuantityChange (q\<lparr>input_value := v\<rparr>)))"

text \<open>The value in the input once \<open>setQuantity\<close> has copied the value of an input target.\<close>

definition assigned_value :: "event_target \<Rightarrow> quantity_input \<Rightarrow> string" where
  "assigned_value target q = (case target of InputElement v \<Rightarrow> v | _ \<Rightarrow> input_value q)"

definition setQuantity ::
  "event_target \<Rightarrow> quantity_input \<Rightarrow> dom_error + quantity_input \<times> update_event list" where
  "setQuantity target q =
     (if target = NotAnElement then Inr (q, [])
      else Inr (onQuantityChange (q\<lparr>input_value := assigned_value target q\<rparr>)))"

text \<open>
  What the operations are checked against: the operation completed, the value of the
  input parses as an integer, the event carries that integer, and the integer is at
  least \<open>min\<close> and at most \<open>max\<close>, each where the attribute is not empty and parses.
\<close>

definition at_least_min :: "quantity_input \<Rightarrow> int \<Rightarrow> bool" where
  "at_least_min q n =
     (case parseInt (min_attr q) of None \<Rightarrow> True | Some m \<Rightarrow> min_attr q = [] \<or> m \<le> n)"

definition at_most_max :: "quantity_input \<Rightarrow> int \<Rightarrow> bool" where
  "at_most_max q n =
     (case parseInt (max_attr q) of None \<Rightarrow> True | Some m \<Rightarrow> max_attr q = [] \<or> n \<le> m)"

definition within_bounds ::
  "quantity_input \<Rightarrow> dom_error + quantity_input \<times> update_event list \<Rightarrow> bool" where
  "within_bounds q r =
     (case r of
        Inl e \<Rightarrow> False
      | Inr (q', events) \<Rightarrow>
          (case parseInt (input_value q') of
             None \<Rightarrow> False
           | Some n \<Rightarrow>
               events = [\<lparr>quantity = Some n, cartLine = js_Number_opt (data_cart_line q)\<rparr>] \<and>
               at_least_min q n \<and> at_most_max q n))"

text \<open>\<open>min\<close> is not above \<open>max\<close> where both are present and parse.\<close>

definition bounds_consistent :: "quantity_input \<Rightarrow> bool" where
  "bounds_consistent q =
     (case (parseInt (min_attr q), parseInt (max_attr q)) of
        (Some m, Some n) \<Rightarrow> min_attr q = [] \<or> max_attr q = [] \<or> m \<le> n
      | _ \<Rightarrow> True)"

text \<open>A cart line with three items, at least one and at most ten allowed; the browser
  steps by one.\<close>

definition three_of_ten :: quantity_input where
  "three_of_ten = \<lparr>min_attr = ''1'', max_attr = ''10'', input_value = ''3'', data_cart_line = Some ''1''\<rparr>"

definition step_to :: "string \<Rightarrow> quantity_input \<Rightarrow> string option" where
  "step_to v q = Some v"

section \<open>The drag-zoom wrapper (src/unnamed/part_004)\<close>

text \<open>
  The wrapper divides, and JavaScript does not stop at a zero divisor: the quotient is
  infinite or \<open>NaN\<close> and the program goes on. So the numbers of the wrapper are the
  reals with the two infinities and \<open>NaN\<close>, and the operations follow IEEE 754 on them.
  Rounding is not modelled, and zero has no sign: a zero divisor counts as the positive
  zero, which is the zero that a distance and a length of the DOM can be. What the
  browser hands over (touch coordinates, times, sizes) is finite and stays a real.
\<close>

datatype js_number = Fin real | PInf | NInf | NaN

fun js_neg :: "js_number \<Rightarrow> js_number" where
  "js_neg (Fin a) = Fin (- a)"
| "js_neg PInf = NInf"
| "js_neg NInf = PInf"
| "js_neg NaN = NaN"

fun js_add :: "js_number \<Rightarrow> js_number \<Rightarrow> js_number" where
  "js_add (Fin a) (Fin b) = Fin (a + b)"
| "js_add NaN b = NaN"
| "js_add a NaN = NaN"
| "js_add PInf NInf = NaN"
| "js_add NInf PInf = NaN"
| "js_add PInf b = PInf"
| "js_add a PInf = PInf"
| "js_add NInf b = NInf"
| "js_add a NInf = NInf"

definition js_sub :: "js_number \<Rightarrow> js_number \<Rightarrow> js_number" where
  "js_sub a b = js_add a (js_neg b)"

text \<open>An infinity times or divided by a finite number: the sign of the result.\<close>

definition signed_inf :: "bool \<Rightarrow> js_number" where
  "signed_inf positive = (if positive then PInf else NInf)"

fun js_mul :: "js_number \<Rightarrow> js_number \<Rightarrow> js_number" where
  "js_mul (Fin a) (Fin b) = Fin (a * b)"
| "js_mul NaN b = NaN"
| "js_mul a NaN = NaN"
| "js_mul (Fin a) PInf = (if a = 0 then NaN else signed_inf (a > 0))"
| "js_mul (Fin a) NInf = (if a = 0 then NaN else signed_inf (a < 0))"
| "js_mul PInf (Fin b) = (if b = 0 then NaN else signed_inf (b > 0))"
| "js_mul NInf (Fin b) = (if b = 0 then NaN else signed_inf (b < 0))"
| "js_mul PInf PInf = PInf"
| "js_mul PInf NInf = NInf"
| "js_mul NInf PInf = NInf"
| "js_mul NInf NInf = PInf"

fun js_div :: "js_number \<Rightarrow> js_number \<Rightarrow> js_number" where
  "js_div (Fin a) (Fin b) =
     (if b \<noteq> 0 then Fin (a / b) else if a = 0 then NaN else signed_inf (a > 0))"
| "js_div NaN b = NaN"
| "js_div a NaN = NaN"
| "js_div (Fin a) PInf = Fin 0"
| "js_div (Fin a) NInf = Fin 0"
| "js_div PInf (Fin b) = signed_inf (b \<ge> 0)"
| "js_div NInf (Fin b) = signed_inf (b < 0)"
| "js_div PInf PInf = NaN"
| "js_div PInf NInf = NaN"
| "js_div NInf PInf = NaN"
| "js_div NInf NInf = NaN"

text \<open>The comparisons \<open><\<close> and \<open><=\<close>; \<open>a > b\<close> is \<open>b < a\<close> and \<open>a >= b\<close> is \<open>b <= a\<close>.\<close>

fun js_less :: "js_number \<Rightarrow> js_number \<Rightarrow> bool" where
  "js_less (Fin a) (Fin b) = (a < b)"
| "js_less NaN b = False"
| "js_less a NaN = False"
| "js_less a NInf = False"
| "js_less PInf b = False"
| "js_less NInf b = True"
| "js_less a PInf = True"

fun js_less_eq :: "js_number \<Rightarrow> js_number \<Rightarrow> bool" where
  "js_less_eq (Fin a) (Fin b) = (a \<le> b)"
| "js_less_eq NaN b = False"
| "js_less_eq a NaN = False"
| "js_less_eq NInf b = True"
| "js_less_eq a PInf = True"
| "js_less_eq a NInf = False"
| "js_less_eq PInf b = False"

text \<open>\<open>Math.min\<close>, \<open>Math.max\<close>, \<open>Math.abs\<close> and \<open>Math.sqrt\<close>.\<close>

definition Math_min :: "js_number \<Rightarrow> js_number \<Rightarrow> js_number" where
  "Math_min a b = (if a = NaN \<or> b = NaN then NaN else if js_less b a then b else a)"

definition Math_max :: "js_number \<Rightarrow> js_number \<Rightarrow> js_number" where
  "Math_max a b = (if a = NaN \<or> b = NaN then NaN else if js_less a b then b else a)"

fun Math_abs :: "js_number \<Rightarrow> js_number" where
  "Math_abs (Fin a) = Fin \<bar>a\<bar>"
| "Math_abs PInf = PInf"
| "Math_abs NInf = PInf"
| "Math_abs NaN = NaN"

fun Math_sqrt :: "js_number \<Rightarrow> js_number" where
  "Math_sqrt (Fin a) = (if a < 0 then NaN else Fin (sqrt a))"
| "Math_sqrt PInf = PInf"
| "Math_sqrt NInf = NaN"
| "Math_sqrt NaN = NaN"

definition MIN_ZOOM :: real where "MIN_ZOOM = 1"
definition MAX_ZOOM :: real where "MAX_ZOOM = 5"
definition DEFAULT_ZOOM :: real where "DEFAULT_ZOOM = 3 / 2"
definition DOUBLE_TAP_DELAY :: real where "DOUBLE_TAP_DELAY = 300"
definition DOUBLE_TAP_DISTANCE :: real where "DOUBLE_TAP_DISTANCE = 50"
definition DRAG_THRESHOLD :: real where "DRAG_THRESHOLD = 10"

text \<open>
  Modelled from the spec: \<open>clamp\<close> of \<open>utilities.js\<close> is not under src. The wrapper uses
  it to keep the scale between \<open>MIN_ZOOM\<close> and \<open>MAX_ZOOM\<close> and the translation between
  the two ends of its range: the value, lowered to the upper bound and raised to the
  lower one, with \<open>Math.min\<close> and \<open>Math.max\<close>.
\<close>

definition clamp :: "js_number \<Rightarrow> js_number \<Rightarrow> js_number \<Rightarrow> js_number" where
  "clamp v lo hi = Math_max lo (Math_min v hi)"

record point =
  point_x :: js_number
  point_y :: js_number

record touch =
  clientX :: real
  clientY :: real

definition origin :: point where
  "origin = \<lparr>point_x = Fin 0, point_y = Fin 0\<rparr>"

definition touch_point :: "touch \<Rightarrow> point" where
  "touch_point t = \<lparr>point_x = Fin (clientX t), point_y = Fin (clientY t)\<rparr>"

definition getDistance :: "point \<Rightarrow> point \<Rightarrow> js_number" where
  "getDistance point1 point2 =
     (let dx = js_sub (point_x point1) (point_x point2);
          dy = js_sub (point_y point1) (point_y point2)
      in Math_sqrt (js_add (js_mul dx dx) (js_mul dy dy)))"

text \<open>
  What the wrapper reads from the DOM at a given moment: whether it holds an image,
  whether it is inside a \<open>zoom-dialog\<close> with a \<open>close\<close> method, the breakpoint, its
  client size, its bounding rectangle and the natural size of the image.
\<close>

record zoom_dom =
  has_image :: bool
  has_zoom_dialog :: bool
  isMobileBreakpoint :: bool
  clientWidth :: real
  clientHeight :: real
  rect_width :: real
  rect_height :: real
  naturalWidth :: real
  naturalHeight :: real

text \<open>
  The private fields of the class; then whether \<open>#controller\<close> was aborted (which
  removes the touch listeners), whether the resize observer observes the element,
  whether the \<open>close\<close> of the dialog has been replaced, and the three custom properties.
\<close>

record drag_zoom =
  scale :: js_number
  initialDistance :: js_number
  startScale :: js_number
  translate :: point
  startPosition :: point
  startTranslate :: point
  isDragging :: bool
  initialized :: bool
  animationFrame :: bool
  lastTapTime :: js_number
  lastTapPosition :: "point option"
  hasDraggedBeyondThreshold :: bool
  hasManualZoom :: bool
  controller_aborted :: bool
  observing_resize :: bool
  close_overridden :: bool
  css_scale :: "js_number option"
  css_translate_x :: "js_number option"
  css_translate_y :: "js_number option"

definition zoom_new :: drag_zoom where
  "zoom_new =
     \<lparr>scale = Fin DEFAULT_ZOOM, initialDistance = Fin 0, startScale = Fin DEFAULT_ZOOM,
      translate = origin, startPosition = origin, startTranslate = origin, isDragging = False,
      initialized = False, animationFrame = False, lastTapTime = Fin 0, lastTapPosition = None,
      hasDraggedBeyondThreshold = False, hasManualZoom = False, controller_aborted = False,
      observing_resize = False, close_overridden = False, css_scale = None,
      css_translate_x = None, css_translate_y = None\<rparr>"

definition requestUpdateTransform :: "drag_zoom \<Rightarrow> drag_zoom" where
  "requestUpdateTransform s = (if \<not> animationFrame s then s\<lparr>animationFrame := True\<rparr> else s)"

definition cancelAnimationFrame :: "drag_zoom \<Rightarrow> drag_zoom" where
  "cancelAnimationFrame s = (if animationFrame s then s\<lparr>animationFrame := False\<rparr> else s)"

definition set_css :: "drag_zoom \<Rightarrow> drag_zoom" where
  "set_css s =
     s\<lparr>css_scale := Some (scale s), css_translate_x := Some (point_x (translate s)),
       css_translate_y := Some (point_y (translate s))\<rparr>"

definition constrainTranslation :: "zoom_dom \<Rightarrow> drag_zoom \<Rightarrow> drag_zoom" where
  "constrainTranslation view s =
     (if clientWidth view = 0 \<or> clientHeight view = 0 \<or> \<not> has_image view then s
      else
        let s1 = s\<lparr>scale := clamp (scale s) (Fin MIN_ZOOM) (Fin MAX_ZOOM)\<rparr>
        in if js_less_eq (scale s1) (Fin MIN_ZOOM)
           then s1\<lparr>translate := \<lparr>point_x = Fin 0, point_y = Fin 0\<rparr>\<rparr>
           else
             let (nW, nH) = (if naturalWidth view > 0 \<and> naturalHeight view > 0
                             then (naturalWidth view, naturalHeight view)
                             else (rect_width view, rect_width view));
                 imageAspectRatio = js_div (Fin nW) (Fin nH);
                 wrapperAspectRatio = js_div (Fin (rect_width view)) (Fin (rect_height view));
                 (actualImageWidth, actualImageHeight) =
                   (if js_less wrapperAspectRatio imageAspectRatio
                    then (Fin (rect_width view), js_div (Fin (rect_width view)) imageAspectRatio)
                    else (js_mul (Fin (rect_height view)) imageAspectRatio, Fin (rect_height view)));
                 scaledImageWidth = js_mul actualImageWidth (scale s1);
                 scaledImageHeight = js_mul actualImageHeight (scale s1);
                 horizontalOverflow = Math_max (Fin 0) (js_sub scaledImageWidth (Fin (rect_width view)));
                 verticalOverflow = Math_max (Fin 0) (js_sub scaledImageHeight (Fin (rect_height view)));
                 maxTranslateX = js_div (js_div horizontalOverflow (Fin 2)) (scale s1);
                 maxTranslateY = js_div (js_div verticalOverflow (Fin 2)) (scale s1)
             in set_css
                  (s1\<lparr>translate :=
                        \<lparr>point_x = clamp (point_x (translate s1)) (js_neg maxTranslateX) maxTranslateX,
                         point_y = clamp (point_y (translate s1)) (js_neg maxTranslateY) maxTranslateY\<rparr>\<rparr>))"

definition updateTransform :: "zoom_dom \<Rightarrow> drag_zoom \<Rightarrow> drag_zoom" where
  "updateTransform view s = set_css (constrainTranslation view (s\<lparr>animationFrame := False\<rparr>))"

definition resetZoom :: "drag_zoom \<Rightarrow> drag_zoom" where
  "resetZoom s =
     s\<lparr>scale := Fin DEFAULT_ZOOM, startScale := Fin DEFAULT_ZOOM,
       translate := \<lparr>point_x = Fin 0, point_y = Fin 0\<rparr>,
       startPosition := \<lparr>point_x = Fin 0, point_y = Fin 0\<rparr>,
       startTranslate := \<lparr>point_x = Fin 0, point_y = Fin 0\<rparr>,
       isDragging := False, lastTapTime := Fin 0, lastTapPosition := None,
       hasDraggedBeyondThreshold := False,
       css_scale := Some (Fin DEFAULT_ZOOM), css_translate_x := Some (Fin 0),
       css_translate_y := Some (Fin 0)\<rparr>"

definition startZoomGestureFromTouches :: "touch \<Rightarrow> touch \<Rightarrow> drag_zoom \<Rightarrow> drag_zoom" where
  "startZoomGestureFromTouches touch1 touch2 s =
     s\<lparr>initialDistance := getDistance (touch_point touch1) (touch_point touch2),
       startScale := scale s, isDragging := False\<rparr>"

definition startDragGestureFromTouch :: "touch \<Rightarrow> drag_zoom \<Rightarrow> drag_zoom" where
  "startDragGestureFromTouch t s =
     s\<lparr>startPosition := touch_point t, startTranslate := translate s, isDragging := True,
       hasDraggedBeyondThreshold := False\<rparr>"

definition storeTapInfo :: "real \<Rightarrow> touch \<Rightarrow> drag_zoom \<Rightarrow> drag_zoom" where
  "storeTapInfo currentTime t s =
     s\<lparr>lastTapTime := Fin currentTime, lastTapPosition := Some (touch_point t)\<rparr>"

text \<open>The translation moved so that a zoom from \<open>oldScale\<close> keeps a point at the given
  distance from the centre where it is.\<close>

definition zoom_about :: "js_number \<Rightarrow> real \<Rightarrow> real \<Rightarrow> drag_zoom \<Rightarrow> drag_zoom" where
  "zoom_about oldScale distanceFromCenterX distanceFromCenterY s =
     (let scaleDelta = js_sub (js_div (scale s) oldScale) (Fin 1)
      in s\<lparr>translate :=
             \<lparr>point_x = js_sub (point_x (translate s))
                          (js_div (js_mul (Fin distanceFromCenterX) scaleDelta) (scale s)),
              point_y = js_sub (point_y (translate s))
                          (js_div (js_mul (Fin distanceFromCenterY) scaleDelta) (scale s))\<rparr>\<rparr>)"

definition handleDoubleTapFromTouch :: "touch \<Rightarrow> zoom_dom \<Rightarrow> drag_zoom \<Rightarrow> drag_zoom" where
  "handleDoubleTapFromTouch t view s =
     (let containerCenterX = clientWidth view / 2;
          containerCenterY = clientHeight view / 2;
          (targetZoom, s1) =
            (if hasManualZoom s
             then (MIN_ZOOM, s\<lparr>hasManualZoom := False,
                                translate := \<lparr>point_x = Fin 0, point_y = Fin 0\<rparr>\<rparr>)
             else if js_less (Math_abs (js_sub (scale s) (Fin MIN_ZOOM))) (Fin (5 / 100))
             then (DEFAULT_ZOOM, s)
             else (MIN_ZOOM, s))
      in requestUpdateTransform
           (if targetZoom \<noteq> MIN_ZOOM
            then zoom_about (scale s1) (clientX t - containerCenterX) (clientY t - containerCenterY)
                   (s1\<lparr>scale := Fin (min MAX_ZOOM targetZoom)\<rparr>)
            else s1\<lparr>scale := Fin targetZoom, translate := \<lparr>point_x = Fin 0, point_y = Fin 0\<rparr>\<rparr>))"

definition handleTouchStart :: "touch list \<Rightarrow> real \<Rightarrow> zoom_dom \<Rightarrow> drag_zoom \<Rightarrow> drag_zoom" where
  "handleTouchStart touches currentTime view s =
     (case touches of
        [touch1, touch2] \<Rightarrow> startZoomGestureFromTouches touch1 touch2 s
      | [t] \<Rightarrow>
          (let timeSinceLastTap = js_sub (Fin currentTime) (lastTapTime s)
           in if js_less_eq (Fin DOUBLE_TAP_DELAY) timeSinceLastTap
              then startDragGestureFromTouch t (storeTapInfo currentTime t s)
              else
                (case lastTapPosition s of
                   None \<Rightarrow> startDragGestureFromTouch t (storeTapInfo currentTime t s)
                 | Some p \<Rightarrow>
                     if js_less (getDistance (touch_point t) p) (Fin DOUBLE_TAP_DISTANCE)
                     then (handleDoubleTapFromTouch t view s)\<lparr>lastTapTime := Fin 0, lastTapPosition := None\<rparr>
                     else startDragGestureFromTouch t (storeTapInfo currentTime t s)))
      | _ \<Rightarrow> s)"

definition processZoomGesture :: "touch \<Rightarrow> touch \<Rightarrow> zoom_dom \<Rightarrow> drag_zoom \<Rightarrow> drag_zoom" where
  "processZoomGesture touch1 touch2 view s =
     (let midX = (clientX touch1 + clientX touch2) / 2;
          midY = (clientY touch1 + clientY touch2) / 2;
          currentDistance = getDistance (touch_point touch1) (touch_point touch2);
          oldScale = scale s;
          newScale = js_mul (js_div currentDistance (initialDistance s)) (startScale s);
          s1 = s\<lparr>scale := clamp newScale (Fin MIN_ZOOM) (Fin MAX_ZOOM), hasManualZoom := True\<rparr>;
          containerCenterX = clientWidth view / 2;
          containerCenterY = clientHeight view / 2;
          s2 = zoom_about oldScale (midX - containerCenterX) (midY - containerCenterY) s1
      in (requestUpdateTransform s2)\<lparr>isDragging := False\<rparr>)"

definition processDragGesture :: "touch \<Rightarrow> drag_zoom \<Rightarrow> drag_zoom" where
  "processDragGesture t s =
     (let distance = getDistance (touch_point t) (startPosition s)
      in if \<not> hasDraggedBeyondThreshold s \<and> js_less distance (Fin DRAG_THRESHOLD) then s
         else
           let s1 = s\<lparr>hasDraggedBeyondThreshold := True\<rparr>;
               dx = js_sub (Fin (clientX t)) (point_x (startPosition s1));
               dy = js_sub (Fin (clientY t)) (point_y (startPosition s1))
           in requestUpdateTransform
                (s1\<lparr>translate :=
                      \<lparr>point_x = js_add (point_x (startTranslate s1)) (js_div dx (scale s1)),
                       point_y = js_add (point_y (startTranslate s1)) (js_div dy (scale s1))\<rparr>\<rparr>))"

definition handleTouchMove :: "touch list \<Rightarrow> zoom_dom \<Rightarrow> drag_zoom \<Rightarrow> drag_zoom" where
  "handleTouchMove touches view s =
     (case touches of
        [touch1, touch2] \<Rightarrow> processZoomGesture touch1 touch2 view s
      | [t] \<Rightarrow> if isDragging s then processDragGesture t s else s
      | _ \<Rightarrow> s)"

definition handleTouchEnd :: "touch list \<Rightarrow> drag_zoom \<Rightarrow> drag_zoom" where
  "handleTouchEnd touches s =
     (if touches = []
      then (requestUpdateTransform (s\<lparr>isDragging := False\<rparr>))\<lparr>hasDraggedBeyondThreshold := False\<rparr>
      else s)"

definition initEventListeners :: "zoom_dom \<Rightarrow> drag_zoom \<Rightarrow> drag_zoom" where
  "initEventListeners view s =
     (if initialized s then s else updateTransform view (s\<lparr>initialized := True\<rparr>))"

definition handleResize :: "zoom_dom \<Rightarrow> drag_zoom \<Rightarrow> drag_zoom" where
  "handleResize view s =
     (let s1 = (if \<not> initialized s \<and> isMobileBreakpoint view then initEventListeners view s else s)
      in if initialized s1 then requestUpdateTransform s1 else s1)"

definition setupDialogCloseListener :: "zoom_dom \<Rightarrow> drag_zoom \<Rightarrow> drag_zoom" where
  "setupDialogCloseListener view s = (if \<not> has_zoom_dialog view then s else s\<lparr>close_overridden := True\<rparr>)"

definition zoom_connectedCallback :: "zoom_dom \<Rightarrow> drag_zoom \<Rightarrow> drag_zoom" where
  "zoom_connectedCallback view s =
     (if \<not> has_image view then s
      else
        let s1 = setupDialogCloseListener view (s\<lparr>observing_resize := True\<rparr>)
        in if \<not> isMobileBreakpoint view then s1
           else updateTransform view (initEventListeners view s1))"

definition zoom_disconnectedCallback :: "drag_zoom \<Rightarrow> drag_zoom" where
  "zoom_disconnectedCallback s =
     cancelAnimationFrame (s\<lparr>controller_aborted := True, observing_resize := False\<rparr>)"

text \<open>The \<open>close\<close> that \<open>#setupDialogCloseListener\<close> puts on the dialog resets the zoom and
  then calls the original \<open>close\<close>, which belongs to \<open>ZoomDialog\<close> (not under src) and
  acts on the dialog only.\<close>

definition dialog_close :: "drag_zoom \<Rightarrow> drag_zoom" where
  "dialog_close s = (if close_overridden s then resetZoom s else s)"

text \<open>
  What can happen to a wrapper. Touch events reach it once the listeners are added and
  until \<open>#controller\<close> is aborted; a resize reaches it while the observer observes; an
  animation frame runs \<open>#updateTransform\<close> if one was requested.
\<close>

datatype zoom_event =
    ZConnect zoom_dom
  | ZDisconnect
  | TouchStart "touch list" real zoom_dom
  | TouchMove "touch list" zoom_dom
  | TouchEnd "touch list"
  | Resize zoom_dom
  | Frame zoom_dom
  | DialogClose

definition listening :: "drag_zoom \<Rightarrow> bool" where
  "listening s = (initialized s \<and> \<not> controller_aborted s)"

fun zoom_step :: "drag_zoom \<Rightarrow> zoom_event \<Rightarrow> drag_zoom" where
  "zoom_step s (ZConnect view) = zoom_connectedCallback view s"
| "zoom_step s ZDisconnect = zoom_disconnectedCallback s"
| "zoom_step s (TouchStart touches currentTime view) =
     (if listening s then handleTouchStart touches currentTime view s else s)"
| "zoom_step s (TouchMove touches view) = (if listening s then handleTouchMove touches view s else s)"
| "zoom_step s (TouchEnd touches) = (if listening s then handleTouchEnd touches s else s)"
| "zoom_step s (Resize view) = (if observing_resize s then handleResize view s else s)"
| "zoom_step s (Frame view) = (if animationFrame s then updateTransform view s else s)"
| "zoom_step s DialogClose = dialog_close s"

definition zoom_run :: "drag_zoom \<Rightarrow> zoom_event list \<Rightarrow> drag_zoom" where
  "zoom_run s es = foldl zoom_step s es"

text \<open>Every connection of the wrapper happens inside a zoom dialog.\<close>

fun inside_dialog :: "zoom_event \<Rightarrow> bool" where
  "inside_dialog (ZConnect view) = has_zoom_dialog view"
| "inside_dialog e = True"

text \<open>
  The one event that divides zero by zero: a move of two touches that are at one and the
  same point, received while \<open>#initialDistance\<close> is 0. A run is free of it when no event
  is such a move in the state it meets.
\<close>

fun zero_by_zero :: "drag_zoom \<Rightarrow> zoom_event \<Rightarrow> bool" where
  "zero_by_zero s (TouchMove [touch1, touch2] view) =
     (listening s \<and> initialDistance s = Fin 0 \<and>
      clientX touch1 = clientX touch2 \<and> clientY touch1 = clientY touch2)"
| "zero_by_zero s e = False"

fun free_of_zero_by_zero :: "drag_zoom \<Rightarrow> zoom_event list \<Rightarrow> bool" where
  "free_of_zero_by_zero s [] = True"
| "free_of_zero_by_zero s (e # es) =
     (\<not> zero_by_zero s e \<and> free_of_zero_by_zero (zoom_step s e) es)"

text \<open>A wrapper that was never set up: scale and translation are as constructed, no
  listener was added, the observer does not observe and no frame is requested.\<close>

definition untouched :: "drag_zoom \<Rightarrow> bool" where
  "untouched s =
     (scale s = Fin DEFAULT_ZOOM \<and> translate s = \<lparr>point_x = Fin 0, point_y = Fin 0\<rparr> \<and>
      \<not> initialized s \<and> \<not> observing_resize s \<and> \<not> animationFrame s)"

text \<open>A number within the zoom range, and the state in which a pinch keeps the scale
  there: scale and start scale are in the range and the initial distance is a distance.\<close>

definition in_zoom_range :: "js_number \<Rightarrow> bool" where
  "in_zoom_range n = (case n of Fin r \<Rightarrow> MIN_ZOOM \<le> r \<and> r \<le> MAX_ZOOM | _ \<Rightarrow> False)"

definition is_distance :: "js_number \<Rightarrow> bool" where
  "is_distance n = (case n of Fin r \<Rightarrow> 0 \<le> r | _ \<Rightarrow> False)"

definition zoom_inv :: "drag_zoom \<Rightarrow> bool" where
  "zoom_inv s = (in_zoom_range (scale s) \<and> in_zoom_range (startScale s) \<and> is_distance (initialDistance s))"

text \<open>
  A phone screen with a portrait image and the same wrapper while it is hidden; a pinch
  that brings two fingers together left of the centre; a second finger that joins a
  first one unnoticed, so that the two move without a pinch having started; and two
  touches that move at one and the same point.
\<close>

definition phone :: zoom_dom where
  "phone =
     \<lparr>has_image = True, has_zoom_dialog = True, isMobileBreakpoint = True, clientWidth = 300,
      clientHeight = 400, rect_width = 300, rect_height = 400, naturalWidth = 600,
      naturalHeight = 800\<rparr>"

definition hidden :: zoom_dom where
  "hidden = phone\<lparr>clientWidth := 0, clientHeight := 0, rect_width := 0, rect_height := 0\<rparr>"

definition pinch_in :: "zoom_event list" where
  "pinch_in =
     [ZConnect phone,
      TouchStart [\<lparr>clientX = 0, clientY = 200\<rparr>, \<lparr>clientX = 100, clientY = 200\<rparr>] 1000 phone,
      TouchMove [\<lparr>clientX = 45, clientY = 200\<rparr>, \<lparr>clientX = 55, clientY = 200\<rparr>] phone]"

definition move_without_start :: "zoom_event list" where
  "move_without_start =
     [ZConnect phone,
      TouchMove [\<lparr>clientX = 40, clientY = 200\<rparr>, \<lparr>clientX = 60, clientY = 200\<rparr>] phone,
      Frame phone]"

definition move_at_one_point :: "zoom_event list" where
  "move_at_one_point =
     [ZConnect phone,
      TouchMove [\<lparr>clientX = 50, clientY = 200\<rparr>, \<lparr>clientX = 50, clientY = 200\<rparr>] phone]"

text \<open>The wrapper after it was connected on the phone, and after the pinch that
  brought it to the minimum zoom.\<close>

definition connected_phone :: drag_zoom where
  "connected_phone =
     zoom_new\<lparr>initialized := True, observing_resize := True, close_overridden := True,
       css_scale := Some (Fin (3 / 2)), css_translate_x := Some (Fin 0),
       css_translate_y := Some (Fin 0)\<rparr>"

definition pinched_in :: drag_zoom where
  "pinched_in =
     connected_phone\<lparr>scale := Fin 1, initialDistance := Fin 100, hasManualZoom := True,
       translate := \<lparr>point_x = Fin (- (100 / 3)), point_y = Fin 0\<rparr>, animationFrame := True\<rparr>"

chapter \<open>Properties\<close>

section \<open>Properties of paginated-list.js\<close>

lemma shouldUsePage_range: "shouldUsePage refs (Some p) = in_page_range p (lastPage_of refs)"
  by (simp add: shouldUsePage_def in_page_range_def split: option.splits)

lemma resolvePromise_fields [simp]:
  "pages (resolvePromise t s) = pages s" "pending (resolvePromise t s) = pending s"
  "trace (resolvePromise t s) = trace s" "isConnected (resolvePromise t s) = isConnected s"
  "filter_observers (resolvePromise t s) = filter_observers s"
  by (simp_all add: resolvePromise_def)

lemma observeViewMore_fields [simp]:
  "pages (observeViewMore refs s) = pages s" "pending (observeViewMore refs s) = pending s"
  "trace (observeViewMore refs s) = trace s" "isConnected (observeViewMore refs s) = isConnected s"
  "filter_observers (observeViewMore refs s) = filter_observers s"
  by (simp_all add: observeViewMore_def Let_def)

lemma pl_inv_resolvePromise [simp]: "pl_inv (resolvePromise t s) = pl_inv s"
  by (simp add: pl_inv_def)

lemma pl_inv_observeViewMore [simp]: "pl_inv (observeViewMore refs s) = pl_inv s"
  by (simp add: pl_inv_def)

lemma pl_inv_fetchSpecificPage: "pl_inv s \<Longrightarrow> pl_inv (snd (fetchSpecificPage t p refs s))"
  by (auto simp: fetchSpecificPage_def pl_inv_def shouldUsePage_range requested_ok_def
      split: option.splits)

lemma pl_inv_fetchPage: "pl_inv s \<Longrightarrow> pl_inv (fetchPage t refs s)"
proof -
  assume a: "pl_inv s"
  have "\<And>p pr s'. fetchSpecificPage t p refs s = (pr, s') \<Longrightarrow> pl_inv s'"
    using pl_inv_fetchSpecificPage [OF a] by (metis snd_conv)
  then show ?thesis
    using a
    by (auto simp: fetchPage_def Let_def split: option.splits prod.splits fetch_progress.splits)
qed

lemma pl_inv_connectedCallback: "pl_inv s \<Longrightarrow> pl_inv (connectedCallback sc refs s)"
proof -
  assume a: "pl_inv s"
  have 1: "pl_inv (s\<lparr>base := sc (base s)\<rparr>)" using a by (simp add: pl_inv_def)
  have 2: "pl_inv (if templateCard refs then s\<lparr>base := sc (base s)\<rparr>\<lparr>aspectRatioHelper := True\<rparr>
                   else s\<lparr>base := sc (base s)\<rparr>)" (is "pl_inv ?s2")
    using 1 by (simp add: pl_inv_def)
  have 3: "pl_inv (fetchPage Previous refs (fetchPage Next refs ?s2))"
    using 2 by (intro pl_inv_fetchPage)
  have 4: "\<And>u. pl_inv u \<Longrightarrow> pl_inv (u\<lparr>filter_listener := True\<rparr>)" by (simp add: pl_inv_def)
  show ?thesis
    unfolding connectedCallback_def Let_def using 3 by (intro 4) simp
qed

lemma pl_inv_disconnectedCallback: "pl_inv s \<Longrightarrow> pl_inv (disconnectedCallback sd s)"
  by (simp add: disconnectedCallback_def pl_inv_def Let_def split: option.splits)

lemma pl_inv_handleFilterUpdate: "pl_inv s \<Longrightarrow> pl_inv (handleFilterUpdate refs s)"
  by (simp add: handleFilterUpdate_def pl_inv_def Let_def split: option.splits)

lemma pl_inv_gridMutated: "pl_inv s \<Longrightarrow> pl_inv (gridMutated refs obs s)"
proof (induction obs arbitrary: s)
  case Nil
  then show ?case by (simp add: pl_inv_def)
next
  case (Cons c obs)
  have upd: "\<And>u f. pl_inv u \<Longrightarrow> pl_inv (u\<lparr>filter_observers := f\<rparr>)" by (simp add: pl_inv_def)
  show ?case
  proof (cases "lastPage_of refs \<noteq> c")
    case True
    then show ?thesis using Cons by (simp add: pl_inv_fetchPage)
  next
    case False
    then show ?thesis using Cons by (simp add: Let_def upd)
  qed
qed

lemma set_drop_nth: "set (drop_nth k xs) \<subseteq> set xs"
  by (auto simp: drop_nth_def dest: in_set_takeD in_set_dropD)

lemma pl_inv_pageResponse: "pl_inv s \<Longrightarrow> pl_inv (pageResponse k c s)"
  using set_drop_nth [of k "pending s"]
  by (auto simp: pageResponse_def pl_inv_def Let_def)

lemma pl_inv_pageFailure: "pl_inv s \<Longrightarrow> pl_inv (pageFailure k s)"
  using set_drop_nth [of k "pending s"]
  by (auto simp: pageFailure_def pl_inv_def)

lemma pl_inv_step: "pl_inv s \<Longrightarrow> pl_inv (pl_step sc sd s e)"
proof (cases e)
  case (Connect refs)
  assume "pl_inv s"
  then have "pl_inv (s\<lparr>isConnected := True\<rparr>)" by (simp add: pl_inv_def)
  then show ?thesis using Connect by (simp add: pl_inv_connectedCallback)
next
  case Disconnect
  assume "pl_inv s"
  then have "pl_inv (s\<lparr>isConnected := False\<rparr>)" by (simp add: pl_inv_def)
  then show ?thesis using Disconnect by (simp add: pl_inv_disconnectedCallback)
next
  case (ObserverTimeout k)
  assume "pl_inv s"
  then show ?thesis using ObserverTimeout by (simp add: pl_inv_def)
qed (simp_all add: pl_inv_handleFilterUpdate pl_inv_fetchPage pl_inv_gridMutated
      pl_inv_pageResponse pl_inv_pageFailure)

lemma pl_inv_run: "pl_inv s \<Longrightarrow> pl_inv (pl_run sc sd s es)"
  unfolding pl_run_def by (induction es arbitrary: s) (simp_all add: pl_inv_step)

lemma pl_inv_new: "pl_inv (pl_new sid b)"
  by (simp add: pl_inv_def pl_new_def)

text \<open>The two example runs, evaluated.\<close>

lemma js_Number_1 [simp]: "js_Number ''1'' = Some 1"
  by (simp add: js_Number_def decimal_literal_def exponent_part_def is_ws_def split_sign_def digit_val_def)

lemma js_Number_2 [simp]: "js_Number ''2'' = Some 2"
  by (simp add: js_Number_def decimal_literal_def exponent_part_def is_ws_def split_sign_def digit_val_def)

lemma js_Number_3 [simp]: "js_Number ''3'' = Some 3"
  by (simp add: js_Number_def decimal_literal_def exponent_part_def is_ws_def split_sign_def digit_val_def)

lemma getPage_page2_of3:
  "getPage Next refs_page2_of3 = Some (Some 3)" "getPage Previous refs_page2_of3 = Some (Some 1)"
  by (simp_all add: getPage_def refs_page2_of3_def js_index_def js_Number_opt_def)

lemma getPage_page1_of1: "getPage Next refs_page1_of1 = Some (Some 2)"
  by (simp add: getPage_def refs_page1_of1_def js_index_def js_Number_opt_def)

lemma shouldUsePage_examples:
  "shouldUsePage refs_page2_of3 (Some (Some 3))" "shouldUsePage refs_page2_of3 (Some (Some 1))"
  "\<not> shouldUsePage refs_page1_of1 (Some (Some 2))" "\<not> shouldUsePage refs_page1_of1 (Some (Some 3))"
  by (simp_all add: shouldUsePage_def lastPage_of_def refs_page2_of3_def refs_page1_of1_def
      js_lt_def js_gt_def)

lemma refs_fields:
  "lastPage_of refs_page2_of3 = Some ''3''" "lastPage_of refs_page1_of1 = Some ''1''"
  "viewMorePrevious refs_page2_of3" "viewMoreNext refs_page2_of3"
  "\<not> templateCard refs_page2_of3"
  "\<not> viewMorePrevious refs_page1_of1" "\<not> viewMoreNext refs_page1_of1"
  "grid refs_page2_of3 = Some \<lparr>data_last_page = Some ''3''\<rparr>"
  "grid refs_page1_of1 = Some \<lparr>data_last_page = Some ''1''\<rparr>"
  by (simp_all add: lastPage_of_def refs_page2_of3_def refs_page1_of1_def)

lemma connected_page2_of3:
  "connectedCallback id refs_page2_of3 (pl_new (Some ''template--1__main'') ()\<lparr>isConnected := True\<rparr>) =
     \<lparr>pages = Map.empty,
      infinityScrollObserver = Some \<lparr>observes_previous = True, observes_next = True\<rparr>,
      resolveNextPagePromise = False, resolvePreviousPagePromise = False,
      aspectRatioHelper = False, filter_listener = True,
      section_id = Some ''template--1__main'', isConnected = True, filter_observers = [],
      pending = [\<lparr>req_type = Next, req_page = Some 3\<rparr>, \<lparr>req_type = Previous, req_page = Some 1\<rparr>],
      trace = [Requested (Some 3) (Some ''3''), Requested (Some 1) (Some ''3'')], base = ()\<rparr>"
  by (simp add: connectedCallback_def pl_new_def fetchPage_def getPage_page2_of3
      shouldUsePage_examples fetchSpecificPage_def sectionId_def observeViewMore_def
      refs_fields Let_def)

lemma pl_stale_run_page3: "pages pl_stale_run (Some 3) = Some ''<ul ref=grid>''"
  by (simp add: pl_stale_run_def pl_run_def connected_page2_of3 handleFilterUpdate_def
     refs_fields fetchPage_def getPage_page1_of1 shouldUsePage_examples observeViewMore_def
     pageResponse_def resolvePromise_def drop_nth_def Let_def)

lemma pl_disconnected_run_page3:
  "pages pl_disconnected_run (Some 3) = Some ''<ul ref=grid>''" "\<not> isConnected pl_disconnected_run"
  by (simp_all add: pl_disconnected_run_def pl_run_def connected_page2_of3
     pageResponse_def resolvePromise_def drop_nth_def disconnectedCallback_def Let_def)

text \<open>
  C2: after the filter-update handler has run, the page cache is empty, whatever it
  held before.
\<close>

theorem handleFilterUpdate_clears_pages: "pages (handleFilterUpdate refs s) = Map.empty"
  by (simp add: handleFilterUpdate_def Let_def split: option.splits)

text \<open>
  C3, as stated: after \<open>disconnectedCallback\<close> the page cache is empty. In the run that
  connects on page 2 of 3, receives page 3 and disconnects, page 3 is still cached.
\<close>

theorem disconnected_pages_counterexample:
  "pages pl_disconnected_run (Some 3) = Some ''<ul ref=grid>'' \<and> \<not> isConnected pl_disconnected_run"
  by (simp add: pl_disconnected_run_page3)

text \<open>
  C3, amended: \<open>disconnectedCallback\<close> disconnects the scroll observer and removes the
  filter-update listener; it leaves the page cache and the pending requests as they
  were, so cached pages survive disconnection.
\<close>

theorem disconnectedCallback_keeps_pages:
  "pages (disconnectedCallback sd s) = pages s \<and>
   pending (disconnectedCallback sd s) = pending s \<and>
   \<not> filter_listener (disconnectedCallback sd s) \<and>
   infinityScrollObserver (disconnectedCallback sd s) =
     map_option (\<lambda>ob. \<lparr>observes_previous = False, observes_next = False\<rparr>) (infinityScrollObserver s)"
  by (simp add: disconnectedCallback_def Let_def split: option.splits)

text \<open>
  C10, as stated: every key of the cache lies within 1 and the \<open>data-last-page\<close> current
  when it is inserted. In the run that requests page 3 of 3, then sees a filter reduce
  the list to one page, then receives the answer, page 3 is cached although the grid
  says that page 1 is the last: the range is checked before the request, not when the
  answer is stored.
\<close>

theorem stale_page_counterexample:
  "pages pl_stale_run (Some 3) = Some ''<ul ref=grid>'' \<and>
   lastPage_of refs_page1_of1 = Some ''1'' \<and>
   \<not> in_page_range (Some 3) (lastPage_of refs_page1_of1)"
  by (simp add: pl_stale_run_page3 refs_fields in_page_range_def js_gt_def js_lt_def)

lemma fetchSpecificPage_requests_iff:
  "fst (fetchSpecificPage t p refs s) = Awaiting \<longleftrightarrow>
     in_page_range p (lastPage_of refs) \<and> sectionId s \<noteq> None"
  by (auto simp: fetchSpecificPage_def shouldUsePage_range split: option.splits)

lemma fetchSpecificPage_skips:
  "\<not> in_page_range p (lastPage_of refs) \<Longrightarrow> fetchSpecificPage t p refs s = (Returned, s)"
  by (simp add: fetchSpecificPage_def shouldUsePage_range)

lemma in_page_range_numbers:
  "in_page_range (Some x) (Some l) \<Longrightarrow> js_Number l = Some n \<Longrightarrow> 1 \<le> x \<and> x \<le> n"
  by (simp add: in_page_range_def js_lt_def js_gt_def)

text \<open>
  C10, amended. A page is requested exactly when \<open>#shouldUsePage\<close> accepts its number
  against the \<open>data-last-page\<close> of that moment (and the element has a section id); the
  answer is stored under that number without a second check. So in every run every key
  of the cache was requested with a number that passed the range check against the
  \<open>data-last-page\<close> current at the request: not below 1 and not above it, which for
  numbers is the interval from 1 to the last page (\<open>in_page_range_numbers\<close>). Other
  page numbers are skipped (\<open>fetchSpecificPage_skips\<close>).
\<close>

theorem cached_pages_were_requested_in_range:
  assumes "pages (pl_run sc sd (pl_new sid b) es) k = Some v"
  shows "\<exists>l. Requested k l \<in> set (trace (pl_run sc sd (pl_new sid b) es)) \<and> in_page_range k l"
proof -
  have "pl_inv (pl_run sc sd (pl_new sid b) es)"
    by (rule pl_inv_run [OF pl_inv_new])
  moreover have "k \<in> dom (pages (pl_run sc sd (pl_new sid b) es))"
    using assms by blast
  ultimately show ?thesis
    unfolding pl_inv_def requested_ok_def by blast
qed

theorem cached_pages_were_requested_in_range_witness:
  "\<exists>l. Requested (Some 3) l \<in> set (trace pl_stale_run) \<and> in_page_range (Some 3) l"
  using cached_pages_were_requested_in_range
    [of id id "Some ''template--1__main''" "()" _ "Some 3" "''<ul ref=grid>''"]
    pl_stale_run_page3
  unfolding pl_stale_run_def by blast

section \<open>Properties of the fetches\<close>

lemma abort_inflight: "set (inflight (abort c n)) = set (inflight n) - set_option c"
  by (cases c) (auto simp: abort_def)

lemma abort_distinct: "distinct (inflight n) \<Longrightarrow> distinct (inflight (abort c n))"
  by (cases c) (auto simp: abort_def distinct_removeAll)

lemma abort_next [simp]: "next_controller (abort c n) = next_controller n"
  by (cases c) (auto simp: abort_def)

lemma vp_fetch_inv_fetch: "vp_fetch_inv s \<Longrightarrow> vp_fetch_inv (fetchUpdatedSection url m s)"
proof -
  assume a: "vp_fetch_inv s"
  have "set (inflight (abort (abortController s) (net s))) = {}"
    using a by (auto simp: abort_inflight vp_fetch_inv_def)
  then show ?thesis
    by (simp add: fetchUpdatedSection_def start_fetch_def vp_fetch_inv_def Let_def)
qed

lemma vp_settle_fields [simp]:
  "net (fetchUpdatedSection_settle outcome s) = net s"
  "abortController (fetchUpdatedSection_settle outcome s) = abortController s"
  by (simp_all add: fetchUpdatedSection_settle_def fetchUpdatedSection_then_def
      fetchUpdatedSection_catch_def split: fetch_outcome.splits)

lemma vp_fetch_inv_cong:
  "net s' = net s \<Longrightarrow> abortController s' = abortController s \<Longrightarrow> vp_fetch_inv s' = vp_fetch_inv s"
  by (simp add: vp_fetch_inv_def)

lemma register_fieldset_fields [simp]:
  "net (register_fieldset els f s) = net s"
  "abortController (register_fieldset els f s) = abortController s"
  by (simp_all add: register_fieldset_def Let_def)

lemma vp_connectedCallback_fields [simp]:
  "net (vp_connectedCallback s) = net s"
  "abortController (vp_connectedCallback s) = abortController s"
proof -
  have "\<And>acc. net (foldl (\<lambda>acc f. register_fieldset els f acc) acc fs) = net acc \<and>
        abortController (foldl (\<lambda>acc f. register_fieldset els f acc) acc fs) = abortController acc"
    for els fs
    by (induction fs) simp_all
  then show "net (vp_connectedCallback s) = net s"
    "abortController (vp_connectedCallback s) = abortController s"
    by (simp_all add: vp_connectedCallback_def)
qed

lemma update_input_fields [simp]:
  "net (update_input a f s) = net s" "abortController (update_input a f s) = abortController s"
  by (simp_all add: update_input_def)

lemma set_fieldset_style_fields [simp]:
  "net (set_fieldset_style i p v s) = net s"
  "abortController (set_fieldset_style i p v s) = abortController s"
  by (simp_all add: set_fieldset_style_def)

lemma clear_previous_fields [simp]:
  "net (clear_previous r s) = net s" "abortController (clear_previous r s) = abortController s"
  by (simp_all add: clear_previous_def split: option.splits)

lemma record_checked_fields [simp]:
  "net (record_checked fi i rs idxs s) = net s"
  "abortController (record_checked fi i rs idxs s) = abortController s"
  by (simp_all add: record_checked_def Let_def split: option.splits)

lemma update_input_target_fields [simp]:
  "net (update_input_target a s) = net s"
  "abortController (update_input_target a s) = abortController s"
  by (simp_all add: update_input_target_def Let_def split: option.splits prod.splits)

lemma updateSelectedOption_fields:
  "updateSelectedOption target s = Inr s' \<Longrightarrow> net s' = net s \<and> abortController s' = abortController s"
  by (auto simp: updateSelectedOption_def update_select_target_def Let_def
      split: vp_target.splits if_splits option.splits prod.splits)

lemma vp_fetch_inv_step: "vp_fetch_inv s \<Longrightarrow> vp_fetch_inv (vp_step s e)"
proof (cases e)
  case VConnect
  assume "vp_fetch_inv s"
  then show ?thesis using VConnect by (simp add: vp_fetch_inv_cong [of "vp_connectedCallback s" s])
next
  case (VUpdate target)
  assume a: "vp_fetch_inv s"
  show ?thesis
  proof (cases "updateSelectedOption target s")
    case (Inl e)
    then show ?thesis using a VUpdate by simp
  next
    case (Inr s')
    then show ?thesis
      using a VUpdate updateSelectedOption_fields [OF Inr] by (simp add: vp_fetch_inv_def)
  qed
next
  case (VFetch url m)
  assume "vp_fetch_inv s"
  then show ?thesis using VFetch by (simp add: vp_fetch_inv_fetch)
next
  case (VSettle c outcome)
  assume "vp_fetch_inv s"
  then show ?thesis using VSettle by (auto simp: vp_fetch_inv_def distinct_removeAll)
next
  case (VAbortHandled c)
  assume "vp_fetch_inv s"
  then show ?thesis using VAbortHandled by (auto simp: vp_fetch_inv_def)
qed

lemma vp_fetch_inv_run: "vp_fetch_inv s \<Longrightarrow> vp_fetch_inv (vp_run s es)"
  unfolding vp_run_def by (induction es arbitrary: s) (simp_all add: vp_fetch_inv_step)

lemma vp_fetch_inv_new: "vp_fetch_inv (vp_new fs els sels)"
  by (simp add: vp_fetch_inv_def vp_new_def no_fetches_def)

lemma vp_fetch_inv_length: "vp_fetch_inv s \<Longrightarrow> length (inflight (net s)) \<le> 1"
proof -
  assume a: "vp_fetch_inv s"
  then have "card (set (inflight (net s))) \<le> card (set_option (abortController s))"
    by (intro card_mono) (auto simp: vp_fetch_inv_def)
  also have "\<dots> \<le> 1" by (cases "abortController s") simp_all
  finally show ?thesis using a by (simp add: vp_fetch_inv_def distinct_card)
qed

lemma qa_fetch_inv_step: "qa_fetch_inv s \<Longrightarrow> qa_fetch_inv (qa_step s e)"
proof (cases e)
  case (CallFetch url)
  assume "qa_fetch_inv s"
  then show ?thesis
    using CallFetch
    by (auto simp: qa_fetch_inv_def fetchProductPage_def start_fetch_def abort_inflight Let_def
        less_Suc_eq)
next
  case (Settle c outcome)
  assume "qa_fetch_inv s"
  then show ?thesis using Settle by (auto simp: qa_fetch_inv_def fetchProductPage_settle_def Let_def)
next
  case (AbortHandled c)
  assume "qa_fetch_inv s"
  then show ?thesis using AbortHandled by (auto simp: qa_fetch_inv_def fetchProductPage_settle_def Let_def)
next
  case Disconnected
  assume "qa_fetch_inv s"
  then show ?thesis using Disconnected by (auto simp: qa_fetch_inv_def qa_disconnectedCallback_def abort_inflight)
qed

lemma qa_fetch_inv_run: "qa_fetch_inv s \<Longrightarrow> qa_fetch_inv (qa_run s es)"
  unfolding qa_run_def by (induction es arbitrary: s) (simp_all add: qa_fetch_inv_step)

lemma qa_fetch_inv_new: "qa_fetch_inv qa_new"
  by (simp add: qa_fetch_inv_def qa_new_def no_fetches_def)

lemma fetchProductPage_aborts_held:
  assumes "qa_fetch_inv s" "url \<noteq> []" "qa_abortController s = Some c"
  shows "c \<notin> set (inflight (qa_net (snd (fetchProductPage url s))))"
  using assms
  by (auto simp: qa_fetch_inv_def fetchProductPage_def start_fetch_def abort_inflight Let_def)

text \<open>
  C1, as stated: every fetching component has at most one outstanding fetch, and aborts
  its own through a controller it owns. \<open>PaginatedList\<close> has no abort controller: when
  it is connected on page 2 of 3, the requests for page 3 and page 1 are outstanding
  together.
\<close>

theorem paginated_list_two_outstanding_counterexample:
  "map req_page (pending (pl_run id id (pl_new (Some ''template--1__main'') ()) [Connect refs_page2_of3]))
     = [Some 3, Some 1]"
  by (simp add: pl_run_def connected_page2_of3)

text \<open>
  C1, amended. A \<open>VariantPicker\<close> aborts the fetch of the controller it holds before it
  starts the next, so in every run at most one of its fetches is outstanding. In every
  run \<open>QuickAddComponent.fetchProductPage\<close>, called with a URL, aborts the fetch of the
  controller the component holds at that moment. \<open>PaginatedList\<close> holds no controller
  and its page requests stay outstanding side by side.
\<close>

theorem own_fetch_aborted_before_next:
  "length (inflight (net (vp_run (vp_new fs els sels) es))) \<le> 1 \<and>
   (url \<noteq> [] \<and> qa_abortController (qa_run qa_new qes) = Some c \<longrightarrow>
      c \<notin> set (inflight (qa_net (qa_step (qa_run qa_new qes) (CallFetch url)))))"
proof
  show "length (inflight (net (vp_run (vp_new fs els sels) es))) \<le> 1"
    by (intro vp_fetch_inv_length vp_fetch_inv_run vp_fetch_inv_new)
  show "url \<noteq> [] \<and> qa_abortController (qa_run qa_new qes) = Some c \<longrightarrow>
      c \<notin> set (inflight (qa_net (qa_step (qa_run qa_new qes) (CallFetch url))))"
    using fetchProductPage_aborts_held [OF qa_fetch_inv_run [OF qa_fetch_inv_new], of url qes c]
    by simp
qed

lemma qa_one_fetch:
  "qa_run qa_new [CallFetch ''/products/mug''] =
     \<lparr>qa_abortController = Some 0, cachedContent = Map.empty,
      qa_net = \<lparr>inflight = [0], aborted = [], next_controller = 1\<rparr>\<rparr>"
  by (simp add: qa_run_def qa_new_def fetchProductPage_def no_fetches_def abort_def start_fetch_def)

theorem own_fetch_aborted_before_next_witness:
  "length (inflight (net (vp_run (vp_new [] [] [])
      [VFetch ''/products/mug?option_values=1'' False, VFetch ''/products/mug?option_values=2'' False])))
     \<le> 1 \<and>
   ''/products/mug'' \<noteq> [] \<and>
   qa_abortController (qa_run qa_new [CallFetch ''/products/mug'']) = Some 0 \<and>
   0 \<notin> set (inflight (qa_net (qa_step (qa_run qa_new [CallFetch ''/products/mug''])
                                  (CallFetch ''/products/mug''))))"
  using own_fetch_aborted_before_next
    [of "[]" "[]" "[]"
        "[VFetch ''/products/mug?option_values=1'' False, VFetch ''/products/mug?option_values=2'' False]"
        "''/products/mug''" "[CallFetch ''/products/mug'']" 0]
  by (simp add: qa_one_fetch)

text \<open>
  A remark on \<open>QuickAddComponent\<close>: the \<open>finally\<close> block of \<open>fetchProductPage\<close> clears
  \<open>#abortController\<close> also when the fetch that ends was aborted by a later call, whose
  controller is then forgotten. After three calls, with the rest of the first one run
  in between, the second and the third fetch are outstanding together.
\<close>

lemma quick_add_forgets_controller:
  "inflight (qa_net (qa_run qa_new
      [CallFetch ''/products/mug'', CallFetch ''/products/mug'', AbortHandled 0,
       CallFetch ''/products/mug''])) = [1, 2]"
  by (simp add: qa_run_def qa_new_def fetchProductPage_def no_fetches_def abort_def start_fetch_def
      fetchProductPage_settle_def Let_def)

text \<open>
  C7, as stated: an aborted fetch changes no state. When the element is disconnected
  while its one fetch is outstanding, \<open>disconnectedCallback\<close> aborts that fetch; when the
  rest of \<open>fetchProductPage\<close> then runs, it returns \<open>null\<close> and its \<open>finally\<close> block
  clears the controller of the call: the controller field changes from that controller
  to \<open>null\<close>.
\<close>

lemma qa_fetch_disconnected:
  "qa_run qa_new [CallFetch ''/products/mug'', Disconnected] =
     \<lparr>qa_abortController = Some 0, cachedContent = Map.empty,
      qa_net = \<lparr>inflight = [], aborted = [0], next_controller = 1\<rparr>\<rparr>"
  by (simp add: qa_run_def qa_new_def fetchProductPage_def no_fetches_def abort_def start_fetch_def
      qa_disconnectedCallback_def)

theorem abort_clears_own_controller_counterexample:
  "qa_abortController (qa_run qa_new [CallFetch ''/products/mug'', Disconnected]) = Some 0 \<and>
   aborted (qa_net (qa_run qa_new [CallFetch ''/products/mug'', Disconnected])) = [0] \<and>
   fst (fetchProductPage_settle (Rejected AbortError)
          (qa_run qa_new [CallFetch ''/products/mug'', Disconnected])) = Inr None \<and>
   qa_abortController (qa_step (qa_run qa_new [CallFetch ''/products/mug'', Disconnected])
                         (AbortHandled 0)) = None"
  by (simp add: qa_fetch_disconnected fetchProductPage_settle_def fetchProductPage_try_def
      AbortError_def)

text \<open>
  C7, amended. On an \<open>AbortError\<close> the picker logs a warning and changes nothing else;
  \<open>fetchProductPage\<close> returns \<open>null\<close>, throws nothing and leaves the cached content and
  the fetches as they are, and where the controller that the component holds is the one
  of the aborted call, the component holds none afterwards and nothing else has
  changed. On any other rejection the picker logs the error and changes nothing else,
  and \<open>fetchProductPage\<close> throws it again; on a response that is not ok
  \<open>fetchProductPage\<close> throws an error that names the HTTP status.
\<close>

theorem fetch_failures_handled:
  "(name e = ''AbortError'' \<longrightarrow>
      fetchUpdatedSection_settle (Rejected e) s = s\<lparr>console := console s @ [Warn ''Fetch aborted by user'']\<rparr> \<and>
      fst (fetchProductPage_settle (Rejected e) q) = Inr None \<and>
      cachedContent (snd (fetchProductPage_settle (Rejected e) q)) = cachedContent q \<and>
      qa_net (snd (fetchProductPage_settle (Rejected e) q)) = qa_net q) \<and>
   (qa_abortController q = Some c \<and> c \<in> set (aborted (qa_net q)) \<longrightarrow>
      qa_step q (AbortHandled c) =
        q\<lparr>qa_abortController := None,
          qa_net := (qa_net q)\<lparr>aborted := removeAll c (aborted (qa_net q))\<rparr>\<rparr>) \<and>
   (name e \<noteq> ''AbortError'' \<longrightarrow>
      fetchUpdatedSection_settle (Rejected e) s = s\<lparr>console := console s @ [ConsoleError e]\<rparr> \<and>
      fst (fetchProductPage_settle (Rejected e) q) = Inl e) \<and>
   (\<not> ok r \<longrightarrow> fst (fetchProductPage_settle (Fulfilled r) q) = Inl (http_error r))"
  by (simp add: fetchUpdatedSection_settle_def fetchUpdatedSection_catch_def
      fetchProductPage_settle_def fetchProductPage_try_def http_error_def)

theorem fetch_failures_handled_witness:
  "fetchUpdatedSection_settle (Rejected AbortError) two_groups
     = two_groups\<lparr>console := console two_groups @ [Warn ''Fetch aborted by user'']\<rparr> \<and>
   fst (fetchProductPage_settle (Rejected AbortError)
          (qa_run qa_new [CallFetch ''/products/mug'', Disconnected])) = Inr None \<and>
   qa_abortController (qa_run qa_new [CallFetch ''/products/mug'', Disconnected]) = Some 0 \<and>
   0 \<in> set (aborted (qa_net (qa_run qa_new [CallFetch ''/products/mug'', Disconnected]))) \<and>
   qa_step (qa_run qa_new [CallFetch ''/products/mug'', Disconnected]) (AbortHandled 0)
     = \<lparr>qa_abortController = None, cachedContent = Map.empty,
        qa_net = \<lparr>inflight = [], aborted = [], next_controller = 1\<rparr>\<rparr> \<and>
   fetchUpdatedSection_settle (Rejected TypeError) two_groups
     = two_groups\<lparr>console := console two_groups @ [ConsoleError TypeError]\<rparr> \<and>
   fst (fetchProductPage_settle (Rejected TypeError) qa_new) = Inl TypeError \<and>
   fst (fetchProductPage_settle (Fulfilled \<lparr>ok = False, status = 404, body = []\<rparr>) qa_new)
     = Inl \<lparr>name = ''Error'', message = ''Failed to fetch product page: HTTP error 404''\<rparr>"
proof -
  have d: "decimal 404 = ''404''" by code_simp
  show ?thesis
    using fetch_failures_handled
        [of AbortError two_groups "qa_run qa_new [CallFetch ''/products/mug'', Disconnected]" 0
            "\<lparr>ok = False, status = 404, body = []\<rparr>"]
      fetch_failures_handled [of TypeError two_groups qa_new 0 "\<lparr>ok = False, status = 404, body = []\<rparr>"]
    by (simp add: AbortError_def TypeError_def http_error_def d qa_fetch_disconnected)
qed

section \<open>Properties of variant-picker.js\<close>

lemma parseInt_0_1: "parseInt ''0'' = Some 0" "parseInt ''1'' = Some 1"
  by (simp_all add: parseInt_def split_sign_def is_ws_def digit_val_def)

lemma two_groups_connected:
  "vp_run two_groups [VConnect] = two_groups\<lparr>checkedIndices := [[1]], radios := [[0, 1], [2, 3]]\<rparr>"
  by (simp add: vp_run_def two_groups_def vp_new_def vp_connectedCallback_def register_fieldset_def
      js_index_def radio_el_def String_of_bool_def Let_def)

lemma two_groups_run:
  "checkedIndices (vp_run two_groups [VConnect, VUpdate (InputEl 2)]) = [[1]]"
  "checkedIndices (vp_run two_groups [VConnect, VUpdate (InputEl 2), VUpdate (InputEl 0)]) = [[0, 1]]"
  "map data_previous_checked (inputs (vp_run two_groups [VConnect, VUpdate (InputEl 2), VUpdate (InputEl 0)]))
     = [None, Some ''true'', None, None]"
  by (simp_all add: vp_run_def two_groups_def vp_new_def vp_connectedCallback_def register_fieldset_def
      js_index_def radio_el_def String_of_bool_def Let_def updateSelectedOption_def
      update_input_target_def parse_index_def parseInt_0_1 update_input_def record_checked_def
      clear_previous_def radio_at_def set_fieldset_style_def pill_width_def)

lemma checkedIndices_preserved [simp]:
  "checkedIndices (update_input a f s) = checkedIndices s"
  "checkedIndices (set_fieldset_style i p v s) = checkedIndices s"
  "checkedIndices (clear_previous r s) = checkedIndices s"
  by (simp_all add: update_input_def set_fieldset_style_def clear_previous_def split: option.splits)

lemma record_checked_checkedIndices:
  "checkedIndices (record_checked fi i rs idxs s) = (checkedIndices s)[fi := take 2 (i # idxs)]"
  by (simp add: record_checked_def Let_def split: option.splits)

lemma js_index_Some: "js_index xs i = Some x \<Longrightarrow> 0 \<le> i \<and> nat i < length xs \<and> xs ! nat i = x"
  by (auto simp: js_index_def split: if_splits)

lemma js_index_update: "js_index xs i = Some x \<Longrightarrow> js_index (xs[nat i := y]) i = Some y"
  by (auto simp: js_index_def split: if_splits)

lemma update_input_target_records:
  assumes "js_index (inputs s) (int a) = Some target"
    and "parse_index (data_fieldset_index target) = Some fieldsetIndex"
    and "parse_index (data_input_index target) = Some inputIndex"
    and "js_index (radios s) fieldsetIndex = Some rs"
    and "js_index (checkedIndices s) fieldsetIndex = Some idxs"
    and "js_index (fieldsets s) fieldsetIndex = Some fieldset"
  shows "js_index (checkedIndices (update_input_target a s)) fieldsetIndex = Some (take 2 (inputIndex # idxs))"
  using assms js_index_update [OF assms(5)]
  by (simp add: update_input_target_def record_checked_checkedIndices)

lemma update_input_target_untracked:
  assumes "js_index (inputs s) (int a) = Some target"
    and "parse_index (data_fieldset_index target) = Some fieldsetIndex"
    and "js_index (checkedIndices s) fieldsetIndex = None"
  shows "checkedIndices (update_input_target a s) = checkedIndices s"
  using assms
  by (simp add: update_input_target_def split: option.splits)

lemma checked_inv_update_input_target: "checked_inv s \<Longrightarrow> checked_inv (update_input_target a s)"
proof -
  assume a: "checked_inv s"
  have "\<And>fi i rs idxs. checked_inv (record_checked fi i rs idxs s)"
    using a
    by (auto simp: checked_inv_def record_checked_checkedIndices dest!: set_update_subset_insert [THEN subsetD])
  then show ?thesis
    using a
    by (auto simp: update_input_target_def checked_inv_def Let_def split: option.splits prod.splits)
qed

lemma update_select_target_checkedIndices:
  "update_select_target a s = Inr s' \<Longrightarrow> checkedIndices s' = checkedIndices s"
  by (auto simp: update_select_target_def Let_def split: option.splits prod.splits)

lemma checked_inv_updateSelectedOption:
  assumes "checked_inv s" "updateSelectedOption target s = Inr s'"
  shows "checked_inv s'"
proof (cases target)
  case (TargetId v)
  then show ?thesis
    using assms checked_inv_update_input_target [OF assms(1)]
    by (auto simp: updateSelectedOption_def Let_def split: if_splits)
next
  case (InputEl a)
  then show ?thesis
    using assms checked_inv_update_input_target [OF assms(1)]
    by (auto simp: updateSelectedOption_def)
next
  case (SelectEl a)
  then show ?thesis
    using assms update_select_target_checkedIndices [of a s s']
    by (simp add: updateSelectedOption_def checked_inv_def)
next
  case OtherEl
  then show ?thesis using assms by (simp add: updateSelectedOption_def)
qed

lemma checked_inv_register: "checked_inv acc \<Longrightarrow> checked_inv (register_fieldset els f acc)"
  by (simp add: register_fieldset_def checked_inv_def Let_def)

lemma checked_inv_register_all:
  "checked_inv acc \<Longrightarrow> checked_inv (foldl (\<lambda>acc f. register_fieldset els f acc) acc fs)"
proof (induction fs arbitrary: acc)
  case Nil
  then show ?case by simp
next
  case (Cons f fs)
  show ?case using Cons.IH [OF checked_inv_register [OF Cons.prems]] by simp
qed

lemma checked_inv_step: "checked_inv s \<Longrightarrow> checked_inv (vp_step s e)"
proof (cases e)
  case VConnect
  assume a: "checked_inv s"
  show ?thesis using a VConnect by (simp add: vp_connectedCallback_def checked_inv_register_all)
next
  case (VUpdate target)
  assume a: "checked_inv s"
  show ?thesis
  proof (cases "updateSelectedOption target s")
    case (Inl e)
    then show ?thesis using a VUpdate by simp
  next
    case (Inr s')
    then show ?thesis using VUpdate checked_inv_updateSelectedOption [OF a Inr] by simp
  qed
next
  case (VFetch url m)
  assume "checked_inv s"
  then show ?thesis using VFetch
    by (simp add: checked_inv_def fetchUpdatedSection_def Let_def split: prod.splits)
next
  case (VSettle c outcome)
  assume "checked_inv s"
  then show ?thesis using VSettle
    by (simp add: checked_inv_def fetchUpdatedSection_settle_def fetchUpdatedSection_then_def
        fetchUpdatedSection_catch_def split: fetch_outcome.splits)
next
  case (VAbortHandled c)
  assume "checked_inv s"
  then show ?thesis using VAbortHandled
    by (simp add: checked_inv_def fetchUpdatedSection_settle_def fetchUpdatedSection_then_def
        fetchUpdatedSection_catch_def split: fetch_outcome.splits)
qed

lemma checked_inv_run: "checked_inv s \<Longrightarrow> checked_inv (vp_run s es)"
  unfolding vp_run_def by (induction es arbitrary: s) (simp_all add: checked_inv_step)

lemma checked_inv_new: "checked_inv (vp_new fs els sels)"
  by (simp add: checked_inv_def vp_new_def)

lemma checked_indices_lengths:
  "\<forall>idxs \<in> set (checkedIndices (vp_run (vp_new fs els sels) es)). 1 \<le> length idxs \<and> length idxs \<le> 2"
  using checked_inv_run [OF checked_inv_new, of fs els sels es] by (simp add: checked_inv_def)

text \<open>
  C5: the array of checked indices of every group holds at most two indices, first the
  index of the radio of that group checked last, then the one checked before it. The
  arrays never hold more than two indices (\<open>checked_indices_lengths\<close>), and a group
  whose array sits at the position of the group gets each checked index recorded in
  front (\<open>update_input_target_records\<close>). The code loses the rest at a picker whose
  first group has no radio marked as current: \<open>connectedCallback\<close> pushes an array only
  for a group with such a radio, so the one array, which belongs to the second group,
  sits at position 0. Checking the first radio of the second group finds no array at
  position 1 and records nothing. Checking the first radio of the first group then
  records into the array of the second group: its second entry, 1, was never checked in
  the first group, whose second radio is nevertheless flagged as previously checked.
\<close>

theorem checked_indices_misaligned:
  "checkedIndices (vp_run two_groups [VConnect]) = [[1]] \<and>
   checkedIndices (vp_run two_groups [VConnect, VUpdate (InputEl 2)]) = [[1]] \<and>
   checkedIndices (vp_run two_groups [VConnect, VUpdate (InputEl 2), VUpdate (InputEl 0)]) = [[0, 1]] \<and>
   map data_previous_checked
     (inputs (vp_run two_groups [VConnect, VUpdate (InputEl 2), VUpdate (InputEl 0)]))
     = [None, Some ''true'', None, None]"
  by (simp add: two_groups_connected two_groups_run)

section \<open>Properties of component-quantity-selector.js\<close>

lemma parseInt_examples:
  "parseInt [] = None" "parseInt ''3'' = Some 3" "parseInt ''10'' = Some 10"
  "parseInt ''4'' = Some 4" "parseInt ''2'' = Some 2" "parseInt ''11'' = Some 11"
  by (simp_all add: parseInt_def split_sign_def is_ws_def digit_val_def)

text \<open>
  C8, as stated: after every public operation the value of the input is at least
  \<open>min\<close> and the event carries the clamped value. When the shopper empties the input
  of a cart line that allows one to ten items, \<open>setQuantity\<close> leaves the input empty
  and dispatches \<open>NaN\<close>: \<open>parseInt\<close> of the empty string is \<open>NaN\<close>, and no comparison
  with \<open>NaN\<close> holds.
\<close>

theorem emptied_input_counterexample:
  "min_attr three_of_ten = ''1'' \<and> parseInt (min_attr three_of_ten) = Some 1 \<and>
   setQuantity (InputElement []) three_of_ten =
     Inr (three_of_ten\<lparr>input_value := []\<rparr>, [\<lparr>quantity = None, cartLine = Some 1\<rparr>]) \<and>
   \<not> within_bounds three_of_ten (setQuantity (InputElement []) three_of_ten)"
proof -
  have "setQuantity (InputElement []) three_of_ten =
     Inr (three_of_ten\<lparr>input_value := []\<rparr>, [\<lparr>quantity = None, cartLine = Some 1\<rparr>])"
    by (simp add: setQuantity_def assigned_value_def onQuantityChange_def checkQuantityRules_def
      three_of_ten_def parseInt_examples parseInt_0_1 js_lt_def js_gt_def js_Number_opt_def Let_def)
  then show ?thesis
    by (simp add: within_bounds_def parseInt_examples) (simp add: three_of_ten_def parseInt_0_1)
qed

lemma checkQuantityRules_bounds:
  assumes "bounds_consistent q" "parseInt (input_value q) = Some n"
  shows "\<exists>n'. parseInt (input_value (checkQuantityRules q)) = Some n' \<and> at_least_min q n' \<and> at_most_max q n'"
  using assms
  by (auto simp: checkQuantityRules_def bounds_consistent_def at_least_min_def at_most_max_def
      js_lt_def js_gt_def Let_def split: option.splits)

lemma checkQuantityRules_attrs [simp]:
  "min_attr (checkQuantityRules q) = min_attr q" "max_attr (checkQuantityRules q) = max_attr q"
  "data_cart_line (checkQuantityRules q) = data_cart_line q"
  by (simp_all add: checkQuantityRules_def Let_def)

lemma onQuantityChange_within_bounds:
  assumes "bounds_consistent q" "parseInt v = Some n"
  shows "within_bounds q (Inr (onQuantityChange (q\<lparr>input_value := v\<rparr>)))"
proof -
  let ?q = "q\<lparr>input_value := v\<rparr>"
  have c: "bounds_consistent ?q" using assms(1) by (simp add: bounds_consistent_def split: option.splits)
  have p: "parseInt (input_value ?q) = Some n" using assms(2) by simp
  obtain n' where n': "parseInt (input_value (checkQuantityRules ?q)) = Some n'"
    "at_least_min ?q n'" "at_most_max ?q n'"
    using checkQuantityRules_bounds [OF c p] by blast
  have "at_least_min q n'" "at_most_max q n'"
    using n'(2,3) by (simp_all add: at_least_min_def at_most_max_def split: option.splits)
  then show ?thesis
    using n'(1) by (simp add: within_bounds_def onQuantityChange_def Let_def)
qed

text \<open>
  C8, amended. When the event target is an element, the value that \<open>stepUp\<close>,
  \<open>stepDown\<close> or the assignment leaves in the input parses as an integer, and \<open>min\<close>
  is not above \<open>max\<close> where both are present: each of the three operations completes,
  the value of the input then parses as an integer that is at least \<open>min\<close> and at most
  \<open>max\<close> (each where the attribute is not empty and parses), and the dispatched event
  carries that integer.
\<close>

theorem quantity_ops_within_bounds:
  assumes "target \<noteq> NotAnElement" "bounds_consistent q" "parseInt v = Some n"
  shows "(stepUp q = Some v \<longrightarrow> within_bounds q (increaseQuantity stepUp target q)) \<and>
         (stepDown q = Some v \<longrightarrow> within_bounds q (decreaseQuantity stepDown target q)) \<and>
         (assigned_value target q = v \<longrightarrow> within_bounds q (setQuantity target q))"
  using assms onQuantityChange_within_bounds [OF assms(2,3)]
  by (auto simp: increaseQuantity_def decreaseQuantity_def setQuantity_def)

theorem quantity_ops_within_bounds_witness:
  "within_bounds three_of_ten (increaseQuantity (step_to ''11'') (InputElement ''11'') three_of_ten) \<and>
   within_bounds three_of_ten (decreaseQuantity (step_to ''11'') (InputElement ''11'') three_of_ten) \<and>
   within_bounds three_of_ten (setQuantity (InputElement ''11'') three_of_ten) \<and>
   setQuantity (InputElement ''11'') three_of_ten
     = Inr (three_of_ten\<lparr>input_value := ''10''\<rparr>, [\<lparr>quantity = Some 10, cartLine = Some 1\<rparr>])"
proof -
  have b: "bounds_consistent three_of_ten"
    by (simp add: bounds_consistent_def three_of_ten_def parseInt_examples parseInt_0_1)
  have t: "InputElement ''11'' \<noteq> NotAnElement" by simp
  have e: "setQuantity (InputElement ''11'') three_of_ten
     = Inr (three_of_ten\<lparr>input_value := ''10''\<rparr>, [\<lparr>quantity = Some 10, cartLine = Some 1\<rparr>])"
    by (simp add: setQuantity_def assigned_value_def onQuantityChange_def checkQuantityRules_def
        three_of_ten_def parseInt_examples parseInt_0_1 js_lt_def js_gt_def js_Number_opt_def Let_def)
  show ?thesis
    using quantity_ops_within_bounds [OF t b parseInt_examples(6), of "step_to ''11''" "step_to ''11''"] e
    by (simp add: step_to_def assigned_value_def)
qed

section \<open>Properties of the drag-zoom wrapper\<close>

lemma requestUpdateTransform_fields [simp]:
  "scale (requestUpdateTransform s) = scale s" "translate (requestUpdateTransform s) = translate s"
  "startScale (requestUpdateTransform s) = startScale s"
  "initialDistance (requestUpdateTransform s) = initialDistance s"
  "close_overridden (requestUpdateTransform s) = close_overridden s"
  "initialized (requestUpdateTransform s) = initialized s"
  "observing_resize (requestUpdateTransform s) = observing_resize s"
  by (simp_all add: requestUpdateTransform_def)

lemma set_css_fields [simp]:
  "scale (set_css s) = scale s" "translate (set_css s) = translate s"
  "startScale (set_css s) = startScale s" "initialDistance (set_css s) = initialDistance s"
  "close_overridden (set_css s) = close_overridden s"
  "initialized (set_css s) = initialized s"
  "observing_resize (set_css s) = observing_resize s"
  "animationFrame (set_css s) = animationFrame s"
  by (simp_all add: set_css_def)

lemma zoom_about_fields [simp]:
  "scale (zoom_about old dx dy s) = scale s" "startScale (zoom_about old dx dy s) = startScale s"
  "initialDistance (zoom_about old dx dy s) = initialDistance s"
  "close_overridden (zoom_about old dx dy s) = close_overridden s"
  "animationFrame (zoom_about old dx dy s) = animationFrame s"
  by (simp_all add: zoom_about_def Let_def)

lemma clamp_Fin:
  "clamp (Fin v) (Fin lo) (Fin hi) = Fin (max lo (min v hi))"
  by (simp add: clamp_def Math_min_def Math_max_def max_def min_def)

lemma clamp_PInf: "clamp PInf (Fin lo) (Fin hi) = Fin (max lo hi)"
  by (simp add: clamp_def Math_min_def Math_max_def max_def)

lemma clamp_zoom_cases:
  "clamp v (Fin MIN_ZOOM) (Fin MAX_ZOOM) = NaN \<or> in_zoom_range (clamp v (Fin MIN_ZOOM) (Fin MAX_ZOOM))"
  by (cases v)
     (simp_all add: clamp_def Math_min_def Math_max_def in_zoom_range_def MIN_ZOOM_def MAX_ZOOM_def)

lemma clamp_in_zoom_range:
  "in_zoom_range v \<Longrightarrow> clamp v (Fin MIN_ZOOM) (Fin MAX_ZOOM) = v"
  by (cases v) (simp_all add: clamp_Fin in_zoom_range_def)

lemma constrainTranslation_fields [simp]:
  "close_overridden (constrainTranslation view s) = close_overridden s"
  "startScale (constrainTranslation view s) = startScale s"
  "initialDistance (constrainTranslation view s) = initialDistance s"
  "initialized (constrainTranslation view s) = initialized s"
  "observing_resize (constrainTranslation view s) = observing_resize s"
  "animationFrame (constrainTranslation view s) = animationFrame s"
  by (simp_all add: constrainTranslation_def Let_def split: prod.splits)

lemma constrainTranslation_scale:
  "scale (constrainTranslation view s) = scale s \<or>
   scale (constrainTranslation view s) = clamp (scale s) (Fin MIN_ZOOM) (Fin MAX_ZOOM)"
  by (simp add: constrainTranslation_def Let_def split: prod.splits)

lemma constrainTranslation_constrains:
  assumes "clientWidth view \<noteq> 0" "clientHeight view \<noteq> 0" "has_image view"
  shows "scale (constrainTranslation view s) = clamp (scale s) (Fin MIN_ZOOM) (Fin MAX_ZOOM) \<and>
         (scale (constrainTranslation view s) = Fin MIN_ZOOM \<longrightarrow>
            translate (constrainTranslation view s) = \<lparr>point_x = Fin 0, point_y = Fin 0\<rparr>)"
  using assms
  by (auto simp: constrainTranslation_def Let_def split: prod.splits)

lemma updateTransform_fields [simp]:
  "close_overridden (updateTransform view s) = close_overridden s"
  "startScale (updateTransform view s) = startScale s"
  "initialDistance (updateTransform view s) = initialDistance s"
  "initialized (updateTransform view s) = initialized s"
  "observing_resize (updateTransform view s) = observing_resize s"
  "animationFrame (updateTransform view s) = False"
  by (simp_all add: updateTransform_def)

lemma updateTransform_scale:
  "scale (updateTransform view s) = scale s \<or>
   scale (updateTransform view s) = clamp (scale s) (Fin MIN_ZOOM) (Fin MAX_ZOOM)"
  using constrainTranslation_scale [of view "s\<lparr>animationFrame := False\<rparr>"]
  by (simp add: updateTransform_def)

lemma updateTransform_constrains:
  assumes "clientWidth view \<noteq> 0" "clientHeight view \<noteq> 0" "has_image view"
  shows "scale (updateTransform view s) = clamp (scale s) (Fin MIN_ZOOM) (Fin MAX_ZOOM) \<and>
         (scale (updateTransform view s) = Fin MIN_ZOOM \<longrightarrow>
            translate (updateTransform view s) = \<lparr>point_x = Fin 0, point_y = Fin 0\<rparr>)"
  using constrainTranslation_constrains [OF assms, of "s\<lparr>animationFrame := False\<rparr>"]
  by (simp add: updateTransform_def)

lemma zoom_inv_updateTransform: "zoom_inv s \<Longrightarrow> zoom_inv (updateTransform view s)"
  using updateTransform_scale [of view s] clamp_in_zoom_range [of "scale s"]
  by (auto simp: zoom_inv_def)

lemma initEventListeners_fields [simp]:
  "close_overridden (initEventListeners view s) = close_overridden s"
  "observing_resize (initEventListeners view s) = observing_resize s"
  by (simp_all add: initEventListeners_def)

lemma zoom_inv_initEventListeners: "zoom_inv s \<Longrightarrow> zoom_inv (initEventListeners view s)"
proof -
  assume a: "zoom_inv s"
  then have "zoom_inv (s\<lparr>initialized := True\<rparr>)" by (simp add: zoom_inv_def)
  then show ?thesis using a zoom_inv_updateTransform by (simp add: initEventListeners_def)
qed

lemma zoom_inv_requestUpdateTransform [simp]: "zoom_inv (requestUpdateTransform s) = zoom_inv s"
  by (simp add: zoom_inv_def)

lemma handleResize_overridden [simp]:
  "close_overridden (handleResize view s) = close_overridden s"
  by (simp add: handleResize_def Let_def)

lemma zoom_inv_handleResize: "zoom_inv s \<Longrightarrow> zoom_inv (handleResize view s)"
  by (simp add: handleResize_def Let_def zoom_inv_initEventListeners)

lemma zoom_connectedCallback_overridden:
  "close_overridden (zoom_connectedCallback view s) =
     (close_overridden s \<or> (has_image view \<and> has_zoom_dialog view))"
  by (simp add: zoom_connectedCallback_def setupDialogCloseListener_def Let_def)

lemma zoom_inv_connectedCallback: "zoom_inv s \<Longrightarrow> zoom_inv (zoom_connectedCallback view s)"
proof -
  assume a: "zoom_inv s"
  then have "zoom_inv (setupDialogCloseListener view (s\<lparr>observing_resize := True\<rparr>))"
    by (simp add: zoom_inv_def setupDialogCloseListener_def)
  then show ?thesis
    using a by (simp add: zoom_connectedCallback_def Let_def zoom_inv_initEventListeners
        zoom_inv_updateTransform)
qed

text \<open>The distance of two touches is the square root of a sum of squares.\<close>

lemma getDistance_touches:
  "getDistance (touch_point t1) (touch_point t2) =
     Fin (sqrt ((clientX t1 - clientX t2) * (clientX t1 - clientX t2) +
                (clientY t1 - clientY t2) * (clientY t1 - clientY t2)))"
proof -
  have "\<not> (clientX t1 - clientX t2) * (clientX t1 - clientX t2) +
          (clientY t1 - clientY t2) * (clientY t1 - clientY t2) < 0"
    by (simp add: not_less)
  then show ?thesis
    by (simp add: getDistance_def touch_point_def js_sub_def Let_def)
qed

lemma is_distance_touches: "is_distance (getDistance (touch_point t1) (touch_point t2))"
  by (simp add: getDistance_touches is_distance_def)

lemma getDistance_apart:
  assumes "clientX t1 \<noteq> clientX t2 \<or> clientY t1 \<noteq> clientY t2"
  shows "\<exists>c. c > 0 \<and> getDistance (touch_point t1) (touch_point t2) = Fin c"
proof -
  let ?q = "(clientX t1 - clientX t2) * (clientX t1 - clientX t2) +
            (clientY t1 - clientY t2) * (clientY t1 - clientY t2)"
  have nz: "?q \<noteq> 0" using assms by simp
  have nn: "0 \<le> ?q" by simp
  have "0 < ?q" using nz nn by linarith
  then have "0 < sqrt ?q" by (simp only: real_sqrt_gt_0_iff)
  then show ?thesis using getDistance_touches by blast
qed

lemma getDistance_nonneg:
  "\<exists>c. c \<ge> 0 \<and> getDistance (touch_point t1) (touch_point t2) = Fin c"
  using getDistance_touches [of t1 t2] by (metis real_sqrt_ge_zero sum_squares_ge_zero)

lemma pinch_scale_in_range:
  assumes "c \<ge> 0" "is_distance d" "in_zoom_range st" "d = Fin 0 \<Longrightarrow> c > 0"
  shows "in_zoom_range (clamp (js_mul (js_div (Fin c) d) st) (Fin MIN_ZOOM) (Fin MAX_ZOOM))"
proof -
  obtain d' where d: "d = Fin d'" "0 \<le> d'" using assms(2) by (cases d) (simp_all add: is_distance_def)
  obtain r where r: "st = Fin r" "MIN_ZOOM \<le> r" using assms(3) by (cases st) (simp_all add: in_zoom_range_def)
  have rpos: "r > 0" using r(2) by (simp add: MIN_ZOOM_def)
  show ?thesis
  proof (cases "d' = 0")
    case True
    then have "c > 0" using assms(4) d(1) by simp
    then show ?thesis
      using True d r rpos
      by (simp add: signed_inf_def clamp_PInf in_zoom_range_def MIN_ZOOM_def MAX_ZOOM_def)
  next
    case False
    then show ?thesis
      using d r by (simp add: clamp_Fin in_zoom_range_def MIN_ZOOM_def MAX_ZOOM_def)
  qed
qed

lemma zoom_inv_processZoomGesture:
  assumes "zoom_inv s"
    and "initialDistance s \<noteq> Fin 0 \<or> clientX t1 \<noteq> clientX t2 \<or> clientY t1 \<noteq> clientY t2"
  shows "zoom_inv (processZoomGesture t1 t2 view s)"
proof -
  obtain c where c: "c \<ge> 0" "getDistance (touch_point t1) (touch_point t2) = Fin c"
    using getDistance_nonneg by blast
  have pos: "initialDistance s = Fin 0 \<Longrightarrow> c > 0"
    using assms(2) getDistance_apart [of t1 t2] c(2) by auto
  have "in_zoom_range (clamp (js_mul (js_div (Fin c) (initialDistance s)) (startScale s))
          (Fin MIN_ZOOM) (Fin MAX_ZOOM))"
    using assms(1) pos by (intro pinch_scale_in_range c(1)) (simp_all add: zoom_inv_def)
  then show ?thesis
    using assms(1) c(2) by (simp add: processZoomGesture_def Let_def zoom_inv_def)
qed

lemma processZoomGesture_overridden [simp]:
  "close_overridden (processZoomGesture t1 t2 view s) = close_overridden s"
  by (simp add: processZoomGesture_def Let_def)

lemma processDragGesture_fields [simp]:
  "close_overridden (processDragGesture t s) = close_overridden s"
  "scale (processDragGesture t s) = scale s" "startScale (processDragGesture t s) = startScale s"
  "initialDistance (processDragGesture t s) = initialDistance s"
  by (simp_all add: processDragGesture_def Let_def)

lemma handleDoubleTapFromTouch_overridden [simp]:
  "close_overridden (handleDoubleTapFromTouch t view s) = close_overridden s"
  by (simp add: handleDoubleTapFromTouch_def Let_def split: prod.splits)

lemma zoom_inv_handleDoubleTapFromTouch:
  "zoom_inv s \<Longrightarrow> zoom_inv (handleDoubleTapFromTouch t view s)"
  by (auto simp: handleDoubleTapFromTouch_def Let_def zoom_inv_def in_zoom_range_def
      MIN_ZOOM_def MAX_ZOOM_def DEFAULT_ZOOM_def split: prod.splits if_splits)

lemma handleTouchStart_overridden [simp]:
  "close_overridden (handleTouchStart touches time view s) = close_overridden s"
  by (simp add: handleTouchStart_def Let_def startZoomGestureFromTouches_def
      startDragGestureFromTouch_def storeTapInfo_def split: list.splits option.splits)

lemma zoom_inv_handleTouchStart: "zoom_inv s \<Longrightarrow> zoom_inv (handleTouchStart touches time view s)"
proof -
  assume a: "zoom_inv s"
  have d: "\<And>u. zoom_inv u \<Longrightarrow> zoom_inv (u\<lparr>lastTapTime := Fin 0, lastTapPosition := None\<rparr>)"
    by (simp add: zoom_inv_def)
  have g: "\<And>t. zoom_inv (startDragGestureFromTouch t (storeTapInfo time t s))"
    using a by (simp add: zoom_inv_def startDragGestureFromTouch_def storeTapInfo_def)
  have z: "\<And>t1 t2. zoom_inv (startZoomGestureFromTouches t1 t2 s)"
    using a is_distance_touches by (simp add: zoom_inv_def startZoomGestureFromTouches_def)
  show ?thesis
    using a d [OF zoom_inv_handleDoubleTapFromTouch [OF a]] g z
    by (simp add: handleTouchStart_def Let_def split: list.splits option.splits)
qed

lemma handleTouchMove_overridden [simp]:
  "close_overridden (handleTouchMove touches view s) = close_overridden s"
  by (simp add: handleTouchMove_def split: list.splits)

lemma zoom_inv_handleTouchMove:
  "zoom_inv s \<Longrightarrow> listening s \<Longrightarrow> \<not> zero_by_zero s (TouchMove touches view) \<Longrightarrow>
   zoom_inv (handleTouchMove touches view s)"
proof -
  assume a: "zoom_inv s" and l: "listening s" and b: "\<not> zero_by_zero s (TouchMove touches view)"
  have "zoom_inv (processDragGesture t s)" for t using a by (simp add: zoom_inv_def)
  then show ?thesis
    using a b l zoom_inv_processZoomGesture [OF a]
    by (auto simp: handleTouchMove_def split: list.splits)
qed

lemma handleTouchEnd_fields [simp]:
  "close_overridden (handleTouchEnd touches s) = close_overridden s"
  "zoom_inv (handleTouchEnd touches s) = zoom_inv s"
  by (simp_all add: handleTouchEnd_def zoom_inv_def)

lemma resetZoom_fields:
  "scale (resetZoom s) = Fin DEFAULT_ZOOM"
  "translate (resetZoom s) = \<lparr>point_x = Fin 0, point_y = Fin 0\<rparr>"
  "close_overridden (resetZoom s) = close_overridden s"
  by (simp_all add: resetZoom_def)

lemma zoom_inv_dialog_close: "zoom_inv s \<Longrightarrow> zoom_inv (dialog_close s)"
  by (simp add: dialog_close_def resetZoom_def zoom_inv_def in_zoom_range_def MIN_ZOOM_def
      MAX_ZOOM_def DEFAULT_ZOOM_def)

lemma zoom_inv_disconnectedCallback: "zoom_inv s \<Longrightarrow> zoom_inv (zoom_disconnectedCallback s)"
  by (simp add: zoom_disconnectedCallback_def cancelAnimationFrame_def zoom_inv_def)

lemma zoom_inv_step: "zoom_inv s \<Longrightarrow> \<not> zero_by_zero s e \<Longrightarrow> zoom_inv (zoom_step s e)"
  by (cases e)
     (simp_all add: zoom_inv_connectedCallback zoom_inv_disconnectedCallback
       zoom_inv_handleTouchStart zoom_inv_handleTouchMove zoom_inv_handleResize
       zoom_inv_updateTransform zoom_inv_dialog_close del: zero_by_zero.simps)

lemma zoom_inv_run: "zoom_inv s \<Longrightarrow> free_of_zero_by_zero s es \<Longrightarrow> zoom_inv (zoom_run s es)"
  unfolding zoom_run_def
  by (induction es arbitrary: s) (simp_all add: zoom_inv_step del: zero_by_zero.simps)

lemma zoom_inv_new: "zoom_inv zoom_new"
  by (simp add: zoom_inv_def zoom_new_def in_zoom_range_def is_distance_def MIN_ZOOM_def
      MAX_ZOOM_def DEFAULT_ZOOM_def)

lemma zoom_step_overridden: "close_overridden s \<Longrightarrow> close_overridden (zoom_step s e)"
  by (cases e)
     (simp_all add: zoom_connectedCallback_overridden zoom_disconnectedCallback_def
       cancelAnimationFrame_def dialog_close_def resetZoom_fields)

lemma zoom_step_untouched:
  assumes "untouched s" "inside_dialog e"
  shows "close_overridden (zoom_step s e) \<or> untouched (zoom_step s e)"
proof (cases e)
  case (ZConnect view)
  show ?thesis
  proof (cases "has_image view")
    case True
    then show ?thesis using assms ZConnect by (simp add: zoom_connectedCallback_overridden)
  next
    case False
    then show ?thesis using assms ZConnect by (simp add: zoom_connectedCallback_def)
  qed
next
  case ZDisconnect
  then show ?thesis using assms
    by (simp add: zoom_disconnectedCallback_def cancelAnimationFrame_def untouched_def)
qed (use assms in \<open>auto simp: untouched_def listening_def dialog_close_def resetZoom_def\<close>)

lemma zoom_run_close_ready:
  assumes "list_all inside_dialog es" "close_overridden s \<or> untouched s"
  shows "close_overridden (zoom_run s es) \<or> untouched (zoom_run s es)"
  using assms unfolding zoom_run_def
proof (induction es arbitrary: s)
  case Nil
  then show ?case by simp
next
  case (Cons e es)
  have "close_overridden (zoom_step s e) \<or> untouched (zoom_step s e)"
    using Cons.prems zoom_step_overridden [of s e] zoom_step_untouched [of s e] by auto
  then show ?case using Cons.IH Cons.prems(1) by simp
qed

lemma zoom_new_untouched: "untouched zoom_new"
  by (simp add: untouched_def zoom_new_def origin_def)


lemma sqrt_100: "sqrt 100 = 10"
  by (rule real_sqrt_unique) simp_all

lemma sqrt_400: "sqrt 400 = 20"
  by (rule real_sqrt_unique) simp_all

lemma sqrt_10000: "sqrt 10000 = 100"
  by (rule real_sqrt_unique) simp_all

lemma distances:
  "getDistance (touch_point \<lparr>clientX = 45, clientY = 200\<rparr>) (touch_point \<lparr>clientX = 55, clientY = 200\<rparr>) = Fin 10"
  "getDistance (touch_point \<lparr>clientX = 40, clientY = 200\<rparr>) (touch_point \<lparr>clientX = 60, clientY = 200\<rparr>) = Fin 20"
  "getDistance (touch_point \<lparr>clientX = 0, clientY = 200\<rparr>) (touch_point \<lparr>clientX = 100, clientY = 200\<rparr>) = Fin 100"
  "getDistance (touch_point \<lparr>clientX = 50, clientY = 200\<rparr>) (touch_point \<lparr>clientX = 50, clientY = 200\<rparr>) = Fin 0"
  by (simp_all add: getDistance_touches sqrt_100 sqrt_400 sqrt_10000)

lemma phone_fields [simp]:
  "has_image phone" "has_zoom_dialog phone" "isMobileBreakpoint phone" "clientWidth phone = 300"
  "clientHeight phone = 400" "rect_width phone = 300" "rect_height phone = 400"
  "naturalWidth phone = 600" "naturalHeight phone = 800"
  "clientWidth hidden = 0"
  by (simp_all add: phone_def hidden_def)

lemmas zoom_eval =
  updateTransform_def constrainTranslation_def clamp_def Math_min_def Math_max_def js_sub_def
  signed_inf_def MIN_ZOOM_def MAX_ZOOM_def DEFAULT_ZOOM_def set_css_def origin_def Let_def

lemma updateTransform_phone_default:
  "scale s = Fin (3 / 2) \<Longrightarrow> translate s = \<lparr>point_x = Fin 0, point_y = Fin 0\<rparr> \<Longrightarrow>
   updateTransform phone s =
     s\<lparr>animationFrame := False, css_scale := Some (Fin (3 / 2)), css_translate_x := Some (Fin 0),
       css_translate_y := Some (Fin 0)\<rparr>"
  by (simp add: zoom_eval)

lemma connect_phone: "zoom_connectedCallback phone zoom_new = connected_phone"
  by (simp add: zoom_connectedCallback_def setupDialogCloseListener_def initEventListeners_def
      updateTransform_phone_default zoom_new_def connected_phone_def DEFAULT_ZOOM_def origin_def
      Let_def)

lemmas gesture_eval =
  connected_phone_def zoom_new_def listening_def handleTouchStart_def
  startZoomGestureFromTouches_def distances handleTouchMove_def processZoomGesture_def
  zoom_about_def requestUpdateTransform_def zoom_eval

lemma pinch_in_run: "zoom_run zoom_new pinch_in = pinched_in"
  by (simp add: zoom_run_def pinch_in_def connect_phone) (simp add: pinched_in_def gesture_eval)

lemma pinch_in_hidden_run:
  "zoom_run zoom_new (pinch_in @ [Frame hidden]) =
     pinched_in\<lparr>animationFrame := False, css_scale := Some (Fin 1),
       css_translate_x := Some (Fin (- (100 / 3))), css_translate_y := Some (Fin 0)\<rparr>"
  by (simp add: zoom_run_def pinch_in_def connect_phone) (simp add: pinched_in_def gesture_eval)

lemma updateTransform_pinched_in:
  "updateTransform phone pinched_in =
     pinched_in\<lparr>translate := \<lparr>point_x = Fin 0, point_y = Fin 0\<rparr>, animationFrame := False,
       css_scale := Some (Fin 1), css_translate_x := Some (Fin 0), css_translate_y := Some (Fin 0)\<rparr>"
  by (simp add: pinched_in_def connected_phone_def zoom_new_def zoom_eval)

lemma move_without_start_run:
  "zoom_run zoom_new move_without_start =
     connected_phone\<lparr>scale := Fin 5, hasManualZoom := True,
       translate := \<lparr>point_x = Fin (140 / 3), point_y = Fin 0\<rparr>,
       css_scale := Some (Fin 5), css_translate_x := Some (Fin (140 / 3)),
       css_translate_y := Some (Fin 0)\<rparr>"
  by (simp add: zoom_run_def move_without_start_def connect_phone) (simp add: gesture_eval)

lemma move_at_one_point_run:
  "scale (zoom_run zoom_new move_at_one_point) = NaN"
  by (simp add: zoom_run_def move_at_one_point_def connect_phone) (simp add: gesture_eval)

text \<open>
  C6: in every run of a wrapper that is connected only inside a zoom dialog, closing the
  dialog leaves the scale at the default zoom of 1.5 and the translation at (0, 0),
  whatever gestures came before and whatever numbers they left, \<open>NaN\<close> included. The
  replaced \<open>close\<close> resets both; a wrapper whose \<open>close\<close> was not replaced has no image
  and was never set up, so both still have their initial values.
\<close>

theorem dialog_close_resets_zoom:
  assumes "list_all inside_dialog es"
  shows "scale (zoom_run zoom_new (es @ [DialogClose])) = Fin (3 / 2) \<and>
         translate (zoom_run zoom_new (es @ [DialogClose])) = \<lparr>point_x = Fin 0, point_y = Fin 0\<rparr>"
proof -
  have "close_overridden (zoom_run zoom_new es) \<or> untouched (zoom_run zoom_new es)"
    using zoom_run_close_ready [OF assms] zoom_new_untouched by simp
  then show ?thesis
    by (auto simp: zoom_run_def dialog_close_def resetZoom_fields untouched_def DEFAULT_ZOOM_def)
qed

theorem dialog_close_resets_zoom_witness:
  "list_all inside_dialog move_without_start \<and>
   scale (zoom_run zoom_new move_without_start) = Fin 5 \<and>
   translate (zoom_run zoom_new move_without_start) = \<lparr>point_x = Fin (140 / 3), point_y = Fin 0\<rparr> \<and>
   scale (zoom_run zoom_new (move_without_start @ [DialogClose])) = Fin (3 / 2) \<and>
   translate (zoom_run zoom_new (move_without_start @ [DialogClose])) = \<lparr>point_x = Fin 0, point_y = Fin 0\<rparr> \<and>
   list_all inside_dialog move_at_one_point \<and>
   scale (zoom_run zoom_new move_at_one_point) = NaN \<and>
   scale (zoom_run zoom_new (move_at_one_point @ [DialogClose])) = Fin (3 / 2)"
proof -
  have i: "list_all inside_dialog move_without_start" by (simp add: move_without_start_def)
  have j: "list_all inside_dialog move_at_one_point" by (simp add: move_at_one_point_def)
  show ?thesis
    using dialog_close_resets_zoom [OF i] dialog_close_resets_zoom [OF j] i j
    by (simp add: move_without_start_run move_at_one_point_run)
qed

text \<open>
  C9, as stated: after every transform update, a scale of 1 comes with a translation of
  (0, 0). A pinch to the minimum zoom left of the centre moves the translation; when the
  animation frame then runs while the wrapper has no width, \<open>#constrainTranslation\<close>
  returns at its first line, and the update ends with scale 1 and the translation the
  pinch left.
\<close>

theorem unconstrained_translation_counterexample:
  "scale (zoom_run zoom_new (pinch_in @ [Frame hidden])) = Fin MIN_ZOOM \<and>
   translate (zoom_run zoom_new (pinch_in @ [Frame hidden]))
     = \<lparr>point_x = Fin (- (100 / 3)), point_y = Fin 0\<rparr>"
  by (simp add: pinch_in_hidden_run pinched_in_def MIN_ZOOM_def)

text \<open>
  C9, amended. In every run in which no move of two touches at one and the same point
  arrives while \<open>#initialDistance\<close> is 0, the scale lies within \<open>MIN_ZOOM\<close> and
  \<open>MAX_ZOOM\<close> after every event, also where a quotient has a zero divisor. A transform update of a wrapper that has a client
  width and height other than zero and holds an image clamps the scale to that range
  and, where the scale then equals the minimum zoom, leaves the translation at (0, 0); a
  wrapper without width, height or image keeps the scale and the translation it had.
\<close>

theorem scale_kept_in_range:
  "(free_of_zero_by_zero zoom_new es \<longrightarrow>
      (\<exists>r. scale (zoom_run zoom_new es) = Fin r \<and> MIN_ZOOM \<le> r \<and> r \<le> MAX_ZOOM)) \<and>
   (clientWidth view \<noteq> 0 \<and> clientHeight view \<noteq> 0 \<and> has_image view \<longrightarrow>
      scale (updateTransform view u) = clamp (scale u) (Fin MIN_ZOOM) (Fin MAX_ZOOM) \<and>
      (scale (updateTransform view u) = Fin MIN_ZOOM \<longrightarrow>
         translate (updateTransform view u) = \<lparr>point_x = Fin 0, point_y = Fin 0\<rparr>)) \<and>
   (clientWidth view = 0 \<or> clientHeight view = 0 \<or> \<not> has_image view \<longrightarrow>
      scale (updateTransform view u) = scale u \<and> translate (updateTransform view u) = translate u)"
proof (intro conjI impI)
  assume "free_of_zero_by_zero zoom_new es"
  then have "zoom_inv (zoom_run zoom_new es)" using zoom_inv_run [OF zoom_inv_new] by simp
  then show "\<exists>r. scale (zoom_run zoom_new es) = Fin r \<and> MIN_ZOOM \<le> r \<and> r \<le> MAX_ZOOM"
    by (cases "scale (zoom_run zoom_new es)") (simp_all add: zoom_inv_def in_zoom_range_def)
next
  assume a: "clientWidth view \<noteq> 0 \<and> clientHeight view \<noteq> 0 \<and> has_image view"
  then show "scale (updateTransform view u) = clamp (scale u) (Fin MIN_ZOOM) (Fin MAX_ZOOM)"
    using updateTransform_constrains [of view u] by blast
  assume "scale (updateTransform view u) = Fin MIN_ZOOM"
  then show "translate (updateTransform view u) = \<lparr>point_x = Fin 0, point_y = Fin 0\<rparr>"
    using a updateTransform_constrains [of view u] by blast
next
  assume "clientWidth view = 0 \<or> clientHeight view = 0 \<or> \<not> has_image view"
  then show "scale (updateTransform view u) = scale u"
    "translate (updateTransform view u) = translate u"
    by (auto simp: updateTransform_def constrainTranslation_def)
qed

theorem scale_kept_in_range_witness:
  "free_of_zero_by_zero zoom_new move_without_start \<and>
   \<not> free_of_zero_by_zero zoom_new move_at_one_point \<and>
   scale (zoom_run zoom_new move_without_start) = Fin 5 \<and> MIN_ZOOM \<le> 5 \<and> 5 \<le> MAX_ZOOM \<and>
   clientWidth phone \<noteq> 0 \<and> clientHeight phone \<noteq> 0 \<and> has_image phone \<and>
   translate pinched_in = \<lparr>point_x = Fin (- (100 / 3)), point_y = Fin 0\<rparr> \<and>
   scale (updateTransform phone pinched_in) = Fin MIN_ZOOM \<and>
   translate (updateTransform phone pinched_in) = \<lparr>point_x = Fin 0, point_y = Fin 0\<rparr> \<and>
   clientWidth hidden = 0 \<and>
   scale (updateTransform hidden pinched_in) = Fin MIN_ZOOM \<and>
   translate (updateTransform hidden pinched_in) = \<lparr>point_x = Fin (- (100 / 3)), point_y = Fin 0\<rparr>"
proof -
  have a: "free_of_zero_by_zero zoom_new move_without_start"
    by (simp add: move_without_start_def)
  have b: "\<not> free_of_zero_by_zero zoom_new move_at_one_point"
    by (simp add: move_at_one_point_def connect_phone)
       (simp add: connected_phone_def zoom_new_def listening_def)
  show ?thesis
    using scale_kept_in_range [of move_without_start phone pinched_in]
      scale_kept_in_range [of move_without_start hidden pinched_in] a b
    by (simp add: move_without_start_run updateTransform_pinched_in)
       (simp add: pinched_in_def MIN_ZOOM_def MAX_ZOOM_def)
qed

text \<open>
  A remark on the scale: when the two touches of a move are at one and the same point
  before any pinch has started, the quotient of the two distances is 0/0, and \<open>clamp\<close>
  passes the \<open>NaN\<close> on to the scale.
\<close>

lemma move_at_one_point_scale: "scale (zoom_run zoom_new move_at_one_point) = NaN"
  by (rule move_at_one_point_run)

section \<open>Properties of disclosure-custom.js\<close>

text \<open>
  C4, as stated: from every state whose \<open>aria-expanded\<close> is \<open>true\<close> or \<open>false\<close>, two
  toggles restore \<open>aria-expanded\<close> and the content's \<open>inert\<close> flag. The flag is not
  restored from a state that is expanded and inert at once: the first toggle sets
  \<open>inert\<close> from the old \<open>aria-expanded\<close>, the second from the new one.
\<close>

theorem toggleDisclosure_twice_inert_counterexample:
  "trigger_attrs disclosure_expanded_inert ''aria-expanded'' = Some ''true'' \<and>
   content_inert (toggleDisclosure (toggleDisclosure disclosure_expanded_inert))
     \<noteq> content_inert disclosure_expanded_inert"
  by (simp add: toggleDisclosure_def disclosure_expanded_inert_def String_of_bool_def)

text \<open>
  C4, amended: from every state whose \<open>aria-expanded\<close> is \<open>true\<close> or \<open>false\<close>, two
  toggles restore \<open>aria-expanded\<close>; the content's \<open>inert\<close> flag ends as the negation
  of the original expanded state, whatever it was before.
\<close>

theorem toggleDisclosure_twice:
  assumes "trigger_attrs d ''aria-expanded'' = Some ''true''
           \<or> trigger_attrs d ''aria-expanded'' = Some ''false''"
  shows "trigger_attrs (toggleDisclosure (toggleDisclosure d)) ''aria-expanded''
           = trigger_attrs d ''aria-expanded''
         \<and> content_inert (toggleDisclosure (toggleDisclosure d))
           = (trigger_attrs d ''aria-expanded'' \<noteq> Some ''true'')"
  using assms by (auto simp: toggleDisclosure_def String_of_bool_def)

theorem toggleDisclosure_twice_witness:
  "trigger_attrs (toggleDisclosure (toggleDisclosure disclosure_expanded_inert)) ''aria-expanded''
     = Some ''true''
   \<and> content_inert (toggleDisclosure (toggleDisclosure disclosure_expanded_inert)) = False"
  using toggleDisclosure_twice [of disclosure_expanded_inert]
  by (simp add: disclosure_expanded_inert_def)

end
